theory Spec2Isabelle
  imports Main
begin

section \<open>Nobitex schemas: candle (OHLC) and trade validation\<close>

text \<open>
  The repository holds two schema modules written with pydantic (version 2):
  \<^verbatim>\<open>nobitex/schema/ohcl_schema.py\<close> (class \<open>OHCLEntry\<close>, class \<open>OHCL\<close>, adapter
  \<open>all_ohlc_T\<close>) and \<^verbatim>\<open>nobitex/schema/trade_schema.py\<close> (class \<open>TradeEntry\<close>, class
  \<open>NubitexTrades\<close>, adapter \<open>all_trades_T\<close>), and a test suite that declares a class
  \<open>OHLCEntry\<close> of its own in \<^verbatim>\<open>tests/test_schema/test_ohcl.py\<close>.

  The functions of the repository are translated one by one. What they call in the
  interpreter and in the libraries (\<open>str\<close>, \<open>len\<close>, \<open>max\<close>, \<open>min\<close>, attribute
  access, \<open>decimal.Decimal\<close>, \<open>datetime.isoformat\<close>, and the validators pydantic
  derives from the field annotations) is written out as far as the schemas use it.
  The class \<open>OHCL\<close> (a list of entries under \<open>values\<close>) is used by no adapter and by
  no property below; it is not translated.
\<close>

subsection \<open>Characters and numerals\<close>

text \<open>
  A Python string is modelled as a list of code points below 256. \<open>is_space\<close> is
  \<open>str.isspace\<close> on that range, \<open>is_digit\<close> the decimal digits.
\<close>

definition is_digit :: "char \<Rightarrow> bool" where
  "is_digit c = (c \<in> set ''0123456789'')"

definition is_space :: "char \<Rightarrow> bool" where
  "is_space c = ((of_char c :: nat) \<in> set [9, 10, 11, 12, 13, 28, 29, 30, 31, 32, 133, 160])"

definition strip :: "string \<Rightarrow> string" where
  "strip s = rev (dropWhile is_space (rev (dropWhile is_space s)))"

definition digit_val :: "char \<Rightarrow> int" where
  "digit_val c = of_char c - 48"

definition digit_char :: "int \<Rightarrow> char" where
  "digit_char n = ''0123456789'' ! nat n"

text \<open>\<open>int(ds)\<close> of a string of digits, and \<open>str(n)\<close> of an integer.\<close>

definition int_of_digits :: "string \<Rightarrow> int" where
  "int_of_digits ds = foldl (\<lambda>a c. 10 * a + digit_val c) 0 ds"

function str_digits :: "int \<Rightarrow> string" where
  "str_digits n =
     (if n < 10 then [digit_char n] else str_digits (n div 10) @ [digit_char (n mod 10)])"
  by pat_completeness auto
termination
  by (relation "measure nat") auto

declare str_digits.simps [simp del]

definition str_int :: "int \<Rightarrow> string" where
  "str_int i = (if i < 0 then CHR ''-'' # str_digits (- i) else str_digits i)"

text \<open>\<open>'%0wd' % n\<close> for \<open>n\<close> not negative: zeros on the left up to the width \<open>w\<close>.\<close>

definition zpad :: "nat \<Rightarrow> int \<Rightarrow> string" where
  "zpad w n = replicate (w - length (str_int n)) CHR ''0'' @ str_int n"


text \<open>\<open>str(int(ds))\<close> of a digit string: the leading zeros go, one digit at least stays.\<close>

definition str_int_digits :: "string \<Rightarrow> string" where
  "str_int_digits ds = (case dropWhile (\<lambda>c. c = CHR ''0'') ds of [] \<Rightarrow> ''0'' | r \<Rightarrow> r)"

definition lower :: "string \<Rightarrow> string" where
  "lower s = map (\<lambda>c. if (65::nat) \<le> of_char c \<and> of_char c \<le> (90::nat)
                        then char_of (of_char c + (32::nat)) else c) s"

subsection \<open>decimal.Decimal\<close>

text \<open>
  A finite \<open>Decimal\<close> is the triple the reference implementation keeps: the sign, the
  coefficient as a string of digits without leading zeros (\<open>_int\<close>), and the exponent
  (\<open>_exp\<close>). Nothing is rounded when a \<open>Decimal\<close> is built from a string.
\<close>

record decimal =
  dec_sign :: bool
  dec_int :: string
  dec_exp :: int

datatype dec_parse = Finite decimal | Special | Invalid

text \<open>
  \<open>Decimal(value)\<close> for a string: the value is stripped, underscores are removed, and
  the rest has to match
  \<^verbatim>\<open>[-+]? ( (?=\d|\.\d) \d* (\.\d*)? (E[-+]?\d+)? | Inf(inity)? | s?NaN\d* ) \Z\<close>
  without regard to case. \<open>Special\<close> stands for an infinity or a NaN, \<open>Invalid\<close> for
  the exception \<open>InvalidOperation\<close>.
\<close>

definition split_sign :: "string \<Rightarrow> bool \<times> string" where
  "split_sign s =
     (case s of
        [] \<Rightarrow> (False, [])
      | c # r \<Rightarrow> if c = CHR ''-'' then (True, r) else if c = CHR ''+'' then (False, r) else (False, s))"

definition parse_exponent :: "string \<Rightarrow> int option" where
  "parse_exponent s =
     (case s of
        [] \<Rightarrow> Some 0
      | c # r \<Rightarrow>
          if c = CHR ''e'' \<or> c = CHR ''E'' then
            (let (neg, ds) = split_sign r in
             if ds \<noteq> [] \<and> list_all is_digit ds
             then Some (if neg then - int_of_digits ds else int_of_digits ds)
             else None)
          else None)"

definition is_special :: "string \<Rightarrow> bool" where
  "is_special r =
     (let l = lower r;
          n = (case l of [] \<Rightarrow> [] | c # t \<Rightarrow> if c = CHR ''s'' then t else l)
      in l = ''inf'' \<or> l = ''infinity'' \<or> (take 3 n = ''nan'' \<and> list_all is_digit (drop 3 n)))"

text \<open>
  CPython's \<open>decimal\<close> (libmpdec, 64 bit) builds the value of a literal exactly in its
  widest context, and raises \<open>InvalidOperation\<close> when that is not possible: the
  coefficient has at most 999999999999999999 digits, the exponent of its first digit
  is at most 999999999999999999, and the exponent is at least -1999999999999999997.
\<close>

definition decimal_exact :: "string \<Rightarrow> int \<Rightarrow> bool" where
  "decimal_exact ds e =
     (int (length ds) \<le> 999999999999999999 \<and> - 1999999999999999997 \<le> e \<and>
      e + int (length ds) - 1 \<le> 999999999999999999)"

definition Decimal_of_str :: "string \<Rightarrow> dec_parse" where
  "Decimal_of_str value =
     (let s = filter (\<lambda>c. c \<noteq> CHR ''_'') (strip value);
          (neg, r) = split_sign s;
          intpart = takeWhile is_digit r;
          r1 = dropWhile is_digit r;
          fracpart = (case r1 of [] \<Rightarrow> [] | c # t \<Rightarrow> if c = CHR ''.'' then takeWhile is_digit t else []);
          r2 = (case r1 of [] \<Rightarrow> [] | c # t \<Rightarrow> if c = CHR ''.'' then dropWhile is_digit t else r1)
      in if intpart @ fracpart \<noteq> [] then
           (case parse_exponent r2 of
              Some e \<Rightarrow>
                if int (length fracpart) \<le> 999999999999999999 \<and>
                   decimal_exact (str_int_digits (intpart @ fracpart)) (e - int (length fracpart))
                then Finite \<lparr>dec_sign = neg, dec_int = str_int_digits (intpart @ fracpart),
                              dec_exp = e - int (length fracpart)\<rparr>
                else Invalid
            | None \<Rightarrow> Invalid)
         else if is_special r then Special
         else Invalid)"

definition Decimal_of_int :: "int \<Rightarrow> decimal" where
  "Decimal_of_int i = \<lparr>dec_sign = (i < 0), dec_int = str_digits \<bar>i\<bar>, dec_exp = 0\<rparr>"

text \<open>
  \<open>str(d)\<close>, the scientific string of the decimal arithmetic specification: plain
  notation when the exponent is not positive and the adjusted exponent (that of the
  first digit of the coefficient) is at least \<open>-6\<close>, exponent notation with one digit
  before the point otherwise.
\<close>

definition decimal_str :: "decimal \<Rightarrow> string" where
  "decimal_str d =
     (let ds = dec_int d;
          sign = (if dec_sign d then ''-'' else '''');
          leftdigits = dec_exp d + int (length ds);
          dotplace = (if dec_exp d \<le> 0 \<and> leftdigits > - 6 then leftdigits else 1);
          intpart = (if dotplace \<le> 0 then ''0''
                     else if dotplace \<ge> int (length ds)
                     then ds @ replicate (nat (dotplace - int (length ds))) CHR ''0''
                     else take (nat dotplace) ds);
          fracpart = (if dotplace \<le> 0 then CHR ''.'' # replicate (nat (- dotplace)) CHR ''0'' @ ds
                      else if dotplace \<ge> int (length ds) then ''''
                      else CHR ''.'' # drop (nat dotplace) ds);
          e = leftdigits - dotplace;
          exp = (if e = 0 then ''''
                 else CHR ''E'' # (if e < 0 then str_int e else CHR ''+'' # str_int e))
      in sign @ intpart @ fracpart @ exp)"

text \<open>The number a decimal stands for, scaled to a common exponent, for comparisons.\<close>

definition dec_num :: "decimal \<Rightarrow> int" where
  "dec_num d = (if dec_sign d then - int_of_digits (dec_int d) else int_of_digits (dec_int d))"

definition dec_scaled :: "int \<Rightarrow> decimal \<Rightarrow> int" where
  "dec_scaled m d = dec_num d * 10 ^ nat (dec_exp d - m)"

definition decimal_lt :: "decimal \<Rightarrow> decimal \<Rightarrow> bool" where
  "decimal_lt a b = (let m = min (dec_exp a) (dec_exp b) in dec_scaled m a < dec_scaled m b)"

subsection \<open>datetime.datetime\<close>

text \<open>
  A date-time value with its fields; \<open>dt_utcoffset\<close> is \<open>None\<close> for a naive value and
  the offset from UTC in microseconds for an aware one (a fixed-offset
  \<open>datetime.timezone\<close>).
\<close>

record datetime =
  dt_year :: int
  dt_month :: int
  dt_day :: int
  dt_hour :: int
  dt_minute :: int
  dt_second :: int
  dt_microsecond :: int
  dt_utcoffset :: "int option"

definition format_offset :: "int option \<Rightarrow> string" where
  "format_offset off =
     (case off of
        None \<Rightarrow> ''''
      | Some off \<Rightarrow>
          (let sign = (if off < 0 then ''-'' else ''+'');
               a = \<bar>off\<bar>;
               hh = a div 3600000000;
               mm = (a mod 3600000000) div 60000000;
               ss = (a mod 3600000000) mod 60000000
           in sign @ zpad 2 hh @ '':'' @ zpad 2 mm @
              (if ss \<noteq> 0
               then '':'' @ zpad 2 (ss div 1000000) @
                    (if ss mod 1000000 \<noteq> 0 then ''.'' @ zpad 6 (ss mod 1000000) else '''')
               else '''')))"

text \<open>\<open>d.isoformat(sep)\<close>: \<^verbatim>\<open>YYYY-MM-DDTHH:MM:SS[.ffffff][+HH:MM[:SS[.ffffff]]]\<close>.\<close>

definition isoformat :: "char \<Rightarrow> datetime \<Rightarrow> string" where
  "isoformat sep d =
     zpad 4 (dt_year d) @ ''-'' @ zpad 2 (dt_month d) @ ''-'' @ zpad 2 (dt_day d) @ [sep] @
     zpad 2 (dt_hour d) @ '':'' @ zpad 2 (dt_minute d) @ '':'' @ zpad 2 (dt_second d) @
     (if dt_microsecond d \<noteq> 0 then ''.'' @ zpad 6 (dt_microsecond d) else '''') @
     format_offset (dt_utcoffset d)"





subsection \<open>Values\<close>

text \<open>
  The values a schema is handed: what a JSON body deserialises to (\<open>None\<close>, booleans,
  integers, strings, lists, dictionaries with string keys), tuples, and the
  \<open>Decimal\<close> and \<open>datetime\<close> values the schema modules themselves mention. Binary
  floating-point numbers are left out. A dictionary is the list of its items in
  insertion order, each key once; a lookup reads it with \<open>map_of\<close>.
\<close>

datatype pyval =
    VNone
  | VBool bool
  | VInt int
  | VStr string
  | VDecimal decimal
  | VDatetime datetime
  | VList "pyval list"
  | VTuple "pyval list"
  | VDict "(string \<times> pyval) list"

definition type_name :: "pyval \<Rightarrow> string" where
  "type_name v =
     (case v of
        VNone \<Rightarrow> ''NoneType'' | VBool _ \<Rightarrow> ''bool'' | VInt _ \<Rightarrow> ''int'' | VStr _ \<Rightarrow> ''str''
      | VDecimal _ \<Rightarrow> ''decimal.Decimal'' | VDatetime _ \<Rightarrow> ''datetime.datetime''
      | VList _ \<Rightarrow> ''list'' | VTuple _ \<Rightarrow> ''tuple'' | VDict _ \<Rightarrow> ''dict'')"

subsection \<open>Exceptions and validation errors\<close>

text \<open>
  A pydantic \<open>ValidationError\<close> carries one line per failure: where (\<open>loc\<close>, a path of
  field names, dictionary keys and list indices), what (\<open>type\<close>) and the offending
  input. An exception a validator function raises is turned into such a line only
  when it is a \<open>ValueError\<close> or an \<open>AssertionError\<close>; any other exception leaves the
  validation call as it is.
\<close>

datatype loc_item = LStr string | LInt nat

datatype error_type =
    Missing
  | ModelType string
  | DictType
  | ListType
  | StringType
  | IntType
  | IntParsing
  | IntParsingSize
  | IntFromFloat
  | DecimalType
  | DecimalParsing
  | FiniteNumber
  | LiteralError "string list"
  | ValueErrorType string

datatype line_error = LineError (le_loc: "loc_item list") (le_type: error_type) (le_input: pyval)

datatype error =
    ValidationError "line_error list"
  | AttributeError string string
  | TypeError string string
  | ValueError string

definition at_loc :: "loc_item \<Rightarrow> line_error \<Rightarrow> line_error" where
  "at_loc l e = LineError (l # le_loc e) (le_type e) (le_input e)"

definition errors_of :: "line_error list + 'a \<Rightarrow> line_error list" where
  "errors_of r = (case r of Inl es \<Rightarrow> es | Inr _ \<Rightarrow> [])"

subsection \<open>str, repr, attribute access and ordering\<close>

definition join :: "string \<Rightarrow> string list \<Rightarrow> string" where
  "join sep xs = (case xs of [] \<Rightarrow> [] | x # r \<Rightarrow> x @ concat (map (\<lambda>y. sep @ y) r))"

definition hex2 :: "nat \<Rightarrow> string" where
  "hex2 n = [''0123456789abcdef'' ! (n div 16), ''0123456789abcdef'' ! (n mod 16)]"

definition repr_char :: "char \<Rightarrow> char \<Rightarrow> string" where
  "repr_char q c =
     (let n = (of_char c :: nat) in
      if c = q \<or> c = CHR 0x5C then [CHR 0x5C, c]
      else if n = 9 then [CHR 0x5C, CHR ''t'']
      else if n = 10 then [CHR 0x5C, CHR ''n'']
      else if n = 13 then [CHR 0x5C, CHR ''r'']
      else if n < 32 \<or> n = 127 \<or> (128 \<le> n \<and> n \<le> 160) \<or> n = 173 then [CHR 0x5C, CHR ''x''] @ hex2 n
      else [c])"

definition repr_str :: "string \<Rightarrow> string" where
  "repr_str s =
     (let q = (if CHR 0x27 \<in> set s \<and> CHR 0x22 \<notin> set s then CHR 0x22 else CHR 0x27)
      in q # concat (map (repr_char q) s) @ [q])"

definition repr_timedelta :: "int \<Rightarrow> string" where
  "repr_timedelta off =
     (let days = off div 86400000000;
          seconds = (off mod 86400000000) div 1000000;
          microseconds = off mod 1000000;
          args = (if days \<noteq> 0 then [''days='' @ str_int days] else []) @
                 (if seconds \<noteq> 0 then [''seconds='' @ str_int seconds] else []) @
                 (if microseconds \<noteq> 0 then [''microseconds='' @ str_int microseconds] else [])
      in ''datetime.timedelta('' @ join '', '' (if args = [] then [''0''] else args) @ '')'')"

definition repr_datetime :: "datetime \<Rightarrow> string" where
  "repr_datetime d =
     (let L = [dt_year d, dt_month d, dt_day d, dt_hour d, dt_minute d] @
              (if dt_microsecond d \<noteq> 0 then [dt_second d, dt_microsecond d]
               else if dt_second d \<noteq> 0 then [dt_second d] else [])
      in ''datetime.datetime('' @ join '', '' (map str_int L) @
         (case dt_utcoffset d of
            None \<Rightarrow> ''''
          | Some off \<Rightarrow> '', tzinfo='' @
              (if off = 0 then ''datetime.timezone.utc''
               else ''datetime.timezone('' @ repr_timedelta off @ '')'')) @ '')'')"

text \<open>
  \<open>str(i)\<close> and \<open>repr(i)\<close> of an integer. CPython refuses to convert an integer of
  more than 4300 decimal digits (the default of \<open>sys.get_int_max_str_digits()\<close>) and
  raises \<open>ValueError\<close>. This is the only exception \<open>str\<close> and \<open>repr\<close> raise on the
  values above, so their result is the text (\<open>Inr\<close>) or the message of that
  \<open>ValueError\<close> (\<open>Inl\<close>).
\<close>

definition int_max_str_digits_message :: string where
  "int_max_str_digits_message =
     ''Exceeds the limit (4300 digits) for integer string conversion; '' @
     ''use sys.set_int_max_str_digits() to increase the limit''"

definition repr_int :: "int \<Rightarrow> string + string" where
  "repr_int i =
     (if 4300 < int (length (str_digits \<bar>i\<bar>)) then Inl int_max_str_digits_message
      else Inr (str_int i))"

text \<open>The texts of the elements of a container, or the first failure among them.\<close>

fun collect :: "(string + 'a) list \<Rightarrow> string + 'a list" where
  "collect [] = Inr []"
| "collect (r # rs) =
     (case r of
        Inl e \<Rightarrow> Inl e
      | Inr x \<Rightarrow> (case collect rs of Inl e \<Rightarrow> Inl e | Inr xs \<Rightarrow> Inr (x # xs)))"

fun py_repr :: "pyval \<Rightarrow> string + string" where
  "py_repr VNone = Inr ''None''"
| "py_repr (VBool b) = Inr (if b then ''True'' else ''False'')"
| "py_repr (VInt i) = repr_int i"
| "py_repr (VStr s) = Inr (repr_str s)"
| "py_repr (VDecimal d) = Inr (''Decimal('' @ [CHR 0x27] @ decimal_str d @ [CHR 0x27] @ '')'')"
| "py_repr (VDatetime d) = Inr (repr_datetime d)"
| "py_repr (VList xs) =
     (case collect (map py_repr xs) of
        Inl e \<Rightarrow> Inl e
      | Inr ss \<Rightarrow> Inr (''['' @ join '', '' ss @ '']''))"
| "py_repr (VTuple [x]) =
     (case py_repr x of Inl e \<Rightarrow> Inl e | Inr s \<Rightarrow> Inr (''('' @ s @ '',)''))"
| "py_repr (VTuple xs) =
     (case collect (map py_repr xs) of
        Inl e \<Rightarrow> Inl e
      | Inr ss \<Rightarrow> Inr (''('' @ join '', '' ss @ '')''))"
| "py_repr (VDict kvs) =
     (case collect (map (\<lambda>kv. case py_repr (snd kv) of
                                 Inl e \<Rightarrow> Inl e
                               | Inr s \<Rightarrow> Inr (repr_str (fst kv) @ '': '' @ s)) kvs) of
        Inl e \<Rightarrow> Inl e
      | Inr ss \<Rightarrow> Inr (''{'' @ join '', '' ss @ ''}''))"

text \<open>\<open>str(v)\<close>: a string is itself; a container prints the \<open>repr\<close> of its elements.\<close>

definition py_str :: "pyval \<Rightarrow> string + string" where
  "py_str v =
     (case v of
        VStr s \<Rightarrow> Inr s
      | VDecimal d \<Rightarrow> Inr (decimal_str d)
      | VDatetime d \<Rightarrow> Inr (isoformat CHR '' '' d)
      | _ \<Rightarrow> py_repr v)"

text \<open>
  \<open>v.name\<close>. None of the values above has an attribute called \<open>high\<close>, \<open>low\<close>,
  \<open>open\<close> or \<open>close\<close>, the only names the schemas read: the access raises
  \<open>AttributeError\<close> (\<^verbatim>\<open>'dict' object has no attribute 'high'\<close>).
\<close>

definition py_getattr :: "pyval \<Rightarrow> string \<Rightarrow> error + pyval" where
  "py_getattr v name = Inl (AttributeError (type_name v) name)"

text \<open>
  \<open>a < b\<close> and \<open>a > b\<close>, written out for the operands a price can be: numbers
  (booleans, integers and decimals compare by value) and strings (by code point). A
  number against a string, and \<open>None\<close> or a dictionary against anything, is
  \<open>TypeError\<close>; the order Python gives to two sequences or to two date-time values is
  not written out, such a pair is given as \<open>TypeError\<close> too. \<open>max(a, b)\<close> keeps \<open>a\<close>
  unless \<open>b > a\<close>, \<open>min(a, b)\<close> keeps \<open>a\<close> unless \<open>b < a\<close>.
\<close>

definition num_of :: "pyval \<Rightarrow> decimal option" where
  "num_of v =
     (case v of
        VBool b \<Rightarrow> Some (Decimal_of_int (if b then 1 else 0))
      | VInt i \<Rightarrow> Some (Decimal_of_int i)
      | VDecimal d \<Rightarrow> Some d
      | _ \<Rightarrow> None)"

fun str_lt :: "string \<Rightarrow> string \<Rightarrow> bool" where
  "str_lt [] [] = False"
| "str_lt [] (y # ys) = True"
| "str_lt (x # xs) [] = False"
| "str_lt (x # xs) (y # ys) =
     (if x = y then str_lt xs ys else (of_char x :: nat) < of_char y)"

definition py_lt :: "pyval \<Rightarrow> pyval \<Rightarrow> error + bool" where
  "py_lt a b =
     (case (num_of a, num_of b) of
        (Some x, Some y) \<Rightarrow> Inr (decimal_lt x y)
      | _ \<Rightarrow>
         (case (a, b) of
            (VStr s, VStr t) \<Rightarrow> Inr (str_lt s t)
          | _ \<Rightarrow> Inl (TypeError (type_name a) (type_name b))))"

definition bind :: "error + 'a \<Rightarrow> ('a \<Rightarrow> error + 'b) \<Rightarrow> error + 'b" where
  "bind m f = (case m of Inl e \<Rightarrow> Inl e | Inr x \<Rightarrow> f x)"

definition py_gt :: "pyval \<Rightarrow> pyval \<Rightarrow> error + bool" where
  "py_gt a b =
     (case py_lt b a of Inl e \<Rightarrow> Inl (TypeError (type_name a) (type_name b)) | Inr r \<Rightarrow> Inr r)"

definition py_max :: "pyval \<Rightarrow> pyval \<Rightarrow> error + pyval" where
  "py_max a b = bind (py_gt b a) (\<lambda>gt. Inr (if gt then b else a))"

definition py_min :: "pyval \<Rightarrow> pyval \<Rightarrow> error + pyval" where
  "py_min a b = bind (py_lt b a) (\<lambda>lt. Inr (if lt then b else a))"

subsection \<open>The validators pydantic derives from the annotations\<close>

text \<open>
  Validation is in lax mode (the default). A validator returns the validated value or
  the lines of the \<open>ValidationError\<close>.

  \<^item> \<open>str\<close>: a string is taken as it is, anything else is \<open>string_type\<close>.
  \<^item> \<open>Decimal\<close>: a \<open>Decimal\<close> is taken as it is; a string or an integer (not a
    boolean) goes through \<open>Decimal(...)\<close>, and \<open>InvalidOperation\<close> there (a string
    that does not parse, a value that does not fit) is \<open>decimal_parsing\<close>; an
    infinity or a NaN is \<open>finite_number\<close>; anything else is
    \<open>decimal_type\<close>.
  \<^item> \<open>int\<close>: an integer or a boolean; a string that, once trimmed, is a numeral
    (\<open>str_as_int\<close> below; \<open>int_parsing\<close> otherwise, \<open>int_parsing_size\<close> for more
    than 4300 digits); a decimal without a fractional part.
  \<^item> \<open>Literal[...]\<close> of strings: a string equal to one of the tokens, anything else
    is \<open>literal_error\<close> with the expected tokens and the input.
\<close>

definition str_validator :: "pyval \<Rightarrow> line_error list + string" where
  "str_validator v = (case v of VStr s \<Rightarrow> Inr s | _ \<Rightarrow> Inl [LineError [] StringType v])"

definition decimal_validator :: "pyval \<Rightarrow> line_error list + decimal" where
  "decimal_validator v =
     (case v of
        VDecimal d \<Rightarrow> Inr d
      | VStr s \<Rightarrow>
          (case Decimal_of_str s of
             Finite d \<Rightarrow> Inr d
           | Special \<Rightarrow> Inl [LineError [] FiniteNumber v]
           | Invalid \<Rightarrow> Inl [LineError [] DecimalParsing v])
      | VInt i \<Rightarrow>
          if int (length (str_digits \<bar>i\<bar>)) \<le> 999999999999999999 then Inr (Decimal_of_int i)
          else Inl [LineError [] DecimalParsing v]
      | _ \<Rightarrow> Inl [LineError [] DecimalType v])"

definition is_trim_space :: "char \<Rightarrow> bool" where
  "is_trim_space c = ((of_char c :: nat) \<in> set [9, 10, 11, 12, 13, 32, 133, 160])"

text \<open>
  The integer of a numeral as pydantic reads it the first time: an optional minus
  sign and decimal digits, without a plus sign and without a leading zero before
  another digit. A numeral of more than 4300 digits is refused for its size.
\<close>

datatype int_parse = IntOk int | IntTooLong | IntBad

definition number_int :: "string \<Rightarrow> int_parse" where
  "number_int s =
     (let neg = (take 1 s = ''-'');
          r = (if neg then drop 1 s else s);
          ds = takeWhile is_digit r;
          rest = dropWhile is_digit r
      in if ds = [] then IntBad
         else if take 1 ds = ''0'' \<and> 1 < length ds then IntBad
         else if 4300 < int (length ds) then IntTooLong
         else if rest = [] then IntOk (if neg then - int_of_digits ds else int_of_digits ds)
         else IntBad)"

text \<open>
  A string that is no such numeral is cleaned and read once more: a plus sign in
  front goes; leading zeros (and underscores among them) go, up to the last one
  before a point; a point followed by zeros only, and at least one, goes with them;
  underscores between digits go.
\<close>

definition strip_leading_zeros :: "string \<Rightarrow> string option" where
  "strip_leading_zeros s =
     (case s of
        [] \<Rightarrow> None
      | c # t \<Rightarrow>
          if c = CHR ''0'' then
            (let z = takeWhile (\<lambda>x. x = CHR ''0'' \<or> x = CHR ''_'') t;
                 r = dropWhile (\<lambda>x. x = CHR ''0'' \<or> x = CHR ''_'') t
             in case r of
                  [] \<Rightarrow> Some [last s]
                | x # _ \<Rightarrow>
                    if x \<in> set ''123456789'' then Some r
                    else if x = CHR ''.'' then Some (last (c # z) # r)
                    else None)
          else if c \<in> set ''123456789'' \<or> c = CHR ''-'' then Some s
          else None)"

definition strip_decimal_zeros :: "string \<Rightarrow> string" where
  "strip_decimal_zeros s =
     (case dropWhile (\<lambda>c. c \<noteq> CHR ''.'') s of
        [] \<Rightarrow> s
      | c # t \<Rightarrow> if t \<noteq> [] \<and> list_all (\<lambda>c. c = CHR ''0'') t
                 then takeWhile (\<lambda>c. c \<noteq> CHR ''.'') s else s)"

fun double_underscore :: "string \<Rightarrow> bool" where
  "double_underscore (x # y # r) = ((x = CHR ''_'' \<and> y = CHR ''_'') \<or> double_underscore (y # r))"
| "double_underscore _ = False"

definition strip_underscores :: "string \<Rightarrow> string option" where
  "strip_underscores s =
     (if CHR ''_'' \<in> set s \<and> hd s \<noteq> CHR ''_'' \<and> last s \<noteq> CHR ''_'' \<and> \<not> double_underscore s
      then Some (filter (\<lambda>c. c \<noteq> CHR ''_'') s)
      else None)"

definition clean_int_str :: "string \<Rightarrow> string option" where
  "clean_int_str s =
     (let s1 = (if take 1 s = ''+'' then drop 1 s else s) in
      case strip_leading_zeros s1 of
        None \<Rightarrow> None
      | Some s2 \<Rightarrow>
          (let s3 = strip_decimal_zeros s2 in
           case strip_underscores s3 of
             Some u \<Rightarrow> Some u
           | None \<Rightarrow> if length s3 = length s then None else Some s3))"

definition str_as_int :: "string \<Rightarrow> error_type + int" where
  "str_as_int s =
     (let t = rev (dropWhile is_trim_space (rev (dropWhile is_trim_space s))) in
      case number_int t of
        IntOk i \<Rightarrow> Inr i
      | IntTooLong \<Rightarrow> Inl IntParsingSize
      | IntBad \<Rightarrow>
          (case clean_int_str t of
             None \<Rightarrow> Inl IntParsing
           | Some u \<Rightarrow> (case number_int u of IntOk i \<Rightarrow> Inr i | _ \<Rightarrow> Inl IntParsing)))"

definition int_validator :: "pyval \<Rightarrow> line_error list + int" where
  "int_validator v =
     (case v of
        VInt i \<Rightarrow> Inr i
      | VBool b \<Rightarrow> Inr (if b then 1 else 0)
      | VStr s \<Rightarrow> (case str_as_int s of Inr i \<Rightarrow> Inr i | Inl t \<Rightarrow> Inl [LineError [] t v])
      | VDecimal d \<Rightarrow>
          (if 0 \<le> dec_exp d then Inr (dec_num d * 10 ^ nat (dec_exp d))
           else if dec_num d mod 10 ^ nat (- dec_exp d) = 0
           then Inr (dec_num d div 10 ^ nat (- dec_exp d))
           else Inl [LineError [] IntFromFloat v])
      | _ \<Rightarrow> Inl [LineError [] IntType v])"

definition literal_validator :: "string list \<Rightarrow> pyval \<Rightarrow> line_error list + string" where
  "literal_validator expected v =
     (case v of
        VStr s \<Rightarrow> if s \<in> set expected then Inr s else Inl [LineError [] (LiteralError expected) v]
      | _ \<Rightarrow> Inl [LineError [] (LiteralError expected) v])"

text \<open>
  A model takes a dictionary (anything else is \<open>model_type\<close>). Every declared field is
  looked up by its name: an absent one is \<open>missing\<close>, a present one goes through the
  field's validator and its error lines get the field name in front. The lines of all
  fields are collected; keys that are no field are not looked at (\<open>extra\<close> is
  \<open>'ignore'\<close> unless configured otherwise, and neither schema configures it).
\<close>

definition model_input :: "string \<Rightarrow> pyval \<Rightarrow> line_error list + (string \<times> pyval) list" where
  "model_input cls v = (case v of VDict d \<Rightarrow> Inr d | _ \<Rightarrow> Inl [LineError [] (ModelType cls) v])"

definition field ::
  "(string \<times> pyval) list \<Rightarrow> string \<Rightarrow> (pyval \<Rightarrow> line_error list + 'a) \<Rightarrow> line_error list + 'a" where
  "field d name validator =
     (case map_of d name of
        None \<Rightarrow> Inl [LineError [LStr name] Missing (VDict d)]
      | Some v \<Rightarrow>
          (case validator v of
             Inl es \<Rightarrow> Inl (map (at_loc (LStr name)) es)
           | Inr x \<Rightarrow> Inr x))"

text \<open>
  A list takes a list or a tuple; the items are validated in order, their error lines
  get the index in front and are collected.
\<close>

definition list_validator :: "(pyval \<Rightarrow> line_error list + 'a) \<Rightarrow> pyval \<Rightarrow> line_error list + 'a list" where
  "list_validator item v =
     (case (case v of VList xs \<Rightarrow> Some xs | VTuple xs \<Rightarrow> Some xs | _ \<Rightarrow> None) of
        None \<Rightarrow> Inl [LineError [] ListType v]
      | Some xs \<Rightarrow>
          (let rs = map item xs;
               errs = concat (map (\<lambda>(i, r). map (at_loc (LInt i)) (errors_of r)) (enumerate 0 rs))
           in if errs = [] then Inr (map projr rs) else Inl errs))"

text \<open>
  A \<open>Dict[str, T]\<close> takes a dictionary; every value is validated, its error lines get
  the key in front and are collected; the result keeps the keys in their order.
\<close>

definition dict_validator ::
  "(pyval \<Rightarrow> line_error list + 'a) \<Rightarrow> pyval \<Rightarrow> line_error list + (string \<times> 'a) list" where
  "dict_validator item v =
     (case v of
        VDict kvs \<Rightarrow>
          (let rs = map (\<lambda>(k, x). (k, item x)) kvs;
               errs = concat (map (\<lambda>(k, r). map (at_loc (LStr k)) (errors_of r)) rs)
           in if errs = [] then Inr (map (\<lambda>(k, r). (k, projr r)) rs) else Inl errs)
      | _ \<Rightarrow> Inl [LineError [] DictType v])"

section \<open>The candle schema: \<^verbatim>\<open>nobitex/schema/ohcl_schema.py\<close>\<close>

record OHCLEntry =
  ohcl_timestamp :: int
  ohcl_open :: decimal
  ohcl_high :: decimal
  ohcl_low :: decimal
  ohcl_close :: decimal
  ohcl_volume :: decimal

text \<open>
  \<open>validate_high_low\<close> is declared \<^verbatim>\<open>@model_validator(mode="before")\<close> on a function
  of one parameter \<open>self\<close>. A before-validator is called with the raw input of the
  validation call, so \<open>self\<close> is that raw input, not an entry with coerced fields.
\<close>

definition validate_high_low :: "pyval \<Rightarrow> error + pyval" where
  "validate_high_low self =
     bind (py_getattr self ''high'') (\<lambda>v_high.
     bind (py_getattr self ''open'') (\<lambda>v_open.
     bind (py_getattr self ''close'') (\<lambda>v_close.
     bind (py_max v_open v_close) (\<lambda>m.
     bind (py_lt v_high m) (\<lambda>below.
     if below then Inl (ValueError ''High must be >= max(open, close)'')
     else
       bind (py_getattr self ''low'') (\<lambda>v_low.
       bind (py_getattr self ''open'') (\<lambda>v_open.
       bind (py_getattr self ''close'') (\<lambda>v_close.
       bind (py_min v_open v_close) (\<lambda>m.
       bind (py_gt v_low m) (\<lambda>above.
       if above then Inl (ValueError ''Low must be <= min(open, close)'')
       else Inr self))))))))))"

text \<open>
  \<open>parse_list\<close> is a plain class method: it carries no validator decorator, so
  validation never calls it.
\<close>

definition parse_list :: "pyval \<Rightarrow> pyval" where
  "parse_list values =
     (case (case values of VList xs \<Rightarrow> Some xs | VTuple xs \<Rightarrow> Some xs | _ \<Rightarrow> None) of
        Some xs \<Rightarrow>
          if length xs \<ge> 6 then
            VDict [(''timestamp'', xs ! 0), (''open'', xs ! 1), (''high'', xs ! 2),
                   (''low'', xs ! 3), (''close'', xs ! 4), (''volume'', xs ! 5)]
          else if length xs = 5 then
            VDict [(''timestamp'', xs ! 0), (''open'', xs ! 1), (''high'', xs ! 2),
                   (''low'', xs ! 3), (''close'', xs ! 4),
                   (''volume'', VDecimal \<lparr>dec_sign = False, dec_int = ''0'', dec_exp = 0\<rparr>)]
          else values
      | None \<Rightarrow> values)"

definition OHCLEntry_fields :: "(string \<times> pyval) list \<Rightarrow> line_error list + OHCLEntry" where
  "OHCLEntry_fields d =
     (let r_timestamp = field d ''timestamp'' int_validator;
          r_open = field d ''open'' decimal_validator;
          r_high = field d ''high'' decimal_validator;
          r_low = field d ''low'' decimal_validator;
          r_close = field d ''close'' decimal_validator;
          r_volume = field d ''volume'' decimal_validator;
          errs = errors_of r_timestamp @ errors_of r_open @ errors_of r_high @
                 errors_of r_low @ errors_of r_close @ errors_of r_volume
      in if errs = [] then
           Inr \<lparr>ohcl_timestamp = projr r_timestamp, ohcl_open = projr r_open,
                ohcl_high = projr r_high, ohcl_low = projr r_low,
                ohcl_close = projr r_close, ohcl_volume = projr r_volume\<rparr>
         else Inl errs)"

text \<open>
  The field validation of the model: a dictionary goes through the fields.
\<close>

definition OHCLEntry_model_fields :: "pyval \<Rightarrow> line_error list + OHCLEntry" where
  "OHCLEntry_model_fields v =
     (case model_input ''OHCLEntry'' v of Inl es \<Rightarrow> Inl es | Inr d \<Rightarrow> OHCLEntry_fields d)"

text \<open>
  \<open>OHCLEntry.model_validate(v)\<close>: the before-validator \<open>validate_high_low\<close> runs on
  the raw input; a \<open>ValueError\<close> it raises becomes a \<open>value_error\<close> line, any other
  exception leaves the call; what it returns goes through the fields.
\<close>

definition OHCLEntry_validate :: "pyval \<Rightarrow> error + OHCLEntry" where
  "OHCLEntry_validate v =
     (case validate_high_low v of
        Inl (ValueError msg) \<Rightarrow> Inl (ValidationError [LineError [] (ValueErrorType msg) v])
      | Inl e \<Rightarrow> Inl e
      | Inr v' \<Rightarrow>
          (case OHCLEntry_model_fields v' of
             Inl es \<Rightarrow> Inl (ValidationError es)
           | Inr entry \<Rightarrow> Inr entry))"

text \<open>\<open>all_ohlc_T = TypeAdapter(Any)\<close>: \<open>validate_python\<close> returns any value as it is.\<close>

definition all_ohlc_T :: "pyval \<Rightarrow> error + pyval" where
  "all_ohlc_T v = Inr v"

section \<open>The trade schema: \<^verbatim>\<open>nobitex/schema/trade_schema.py\<close>\<close>

record TradeEntry =
  trade_market :: string
  trade_price :: decimal
  trade_amount :: decimal
  trade_total :: decimal
  trade_type :: string
  trade_timestamp :: string

record NubitexTrades =
  nt_trades :: "TradeEntry list"
  nt_status :: string

text \<open>
  \<open>validate_timestamp\<close> is a before-validator of the field \<open>timestamp\<close>: it gets the
  raw field value and what it returns goes through the \<open>str\<close> validator. It raises
  what \<open>str(v)\<close> raises, a \<open>ValueError\<close> (\<open>Inl\<close> with its message), which pydantic
  turns into a \<open>value_error\<close> line for the field.
\<close>

definition validate_timestamp :: "pyval \<Rightarrow> string + pyval" where
  "validate_timestamp v =
     (case v of
        VDatetime d \<Rightarrow> Inr (VStr (isoformat CHR ''T'' d))
      | _ \<Rightarrow> (case py_str v of Inl msg \<Rightarrow> Inl msg | Inr s \<Rightarrow> Inr (VStr s)))"

definition timestamp_validator :: "pyval \<Rightarrow> line_error list + string" where
  "timestamp_validator v =
     (case validate_timestamp v of
        Inl msg \<Rightarrow> Inl [LineError [] (ValueErrorType msg) v]
      | Inr w \<Rightarrow> str_validator w)"

definition TradeEntry_fields :: "(string \<times> pyval) list \<Rightarrow> line_error list + TradeEntry" where
  "TradeEntry_fields d =
     (let r_market = field d ''market'' str_validator;
          r_price = field d ''price'' decimal_validator;
          r_amount = field d ''amount'' decimal_validator;
          r_total = field d ''total'' decimal_validator;
          r_type = field d ''type'' (literal_validator [''buy'', ''sell'']);
          r_timestamp = field d ''timestamp'' timestamp_validator;
          errs = errors_of r_market @ errors_of r_price @ errors_of r_amount @
                 errors_of r_total @ errors_of r_type @ errors_of r_timestamp
      in if errs = [] then
           Inr \<lparr>trade_market = projr r_market, trade_price = projr r_price,
                trade_amount = projr r_amount, trade_total = projr r_total,
                trade_type = projr r_type, trade_timestamp = projr r_timestamp\<rparr>
         else Inl errs)"

text \<open>\<open>TradeEntry.model_validate(v)\<close>.\<close>

definition TradeEntry_validate :: "pyval \<Rightarrow> line_error list + TradeEntry" where
  "TradeEntry_validate v =
     (case model_input ''TradeEntry'' v of Inl es \<Rightarrow> Inl es | Inr d \<Rightarrow> TradeEntry_fields d)"

definition NubitexTrades_fields :: "(string \<times> pyval) list \<Rightarrow> line_error list + NubitexTrades" where
  "NubitexTrades_fields d =
     (let r_trades = field d ''trades'' (list_validator TradeEntry_validate);
          r_status = field d ''status'' str_validator;
          errs = errors_of r_trades @ errors_of r_status
      in if errs = [] then Inr \<lparr>nt_trades = projr r_trades, nt_status = projr r_status\<rparr>
         else Inl errs)"

text \<open>\<open>NubitexTrades.model_validate(v)\<close>.\<close>

definition NubitexTrades_validate :: "pyval \<Rightarrow> line_error list + NubitexTrades" where
  "NubitexTrades_validate v =
     (case model_input ''NubitexTrades'' v of Inl es \<Rightarrow> Inl es | Inr d \<Rightarrow> NubitexTrades_fields d)"

text \<open>\<open>all_trades_T = TypeAdapter(Dict[str, NubitexTrades])\<close>, its \<open>validate_python\<close>.\<close>

definition all_trades_T :: "pyval \<Rightarrow> line_error list + (string \<times> NubitexTrades) list" where
  "all_trades_T v = dict_validator NubitexTrades_validate v"

section \<open>The class of the test suite: \<^verbatim>\<open>tests/test_schema/test_ohcl.py\<close>\<close>

text \<open>
  The test suite does not import the schema module: it declares a class \<open>OHLCEntry\<close>
  with the same six fields, whose \<open>parse_list\<close> is registered as the model's
  before-validator (and gives a 5-element sequence the volume \<open>"0"\<close>, a string), and
  which has no high/low check.
\<close>

definition test_parse_list :: "pyval \<Rightarrow> pyval" where
  "test_parse_list data =
     (case (case data of VList xs \<Rightarrow> Some xs | VTuple xs \<Rightarrow> Some xs | _ \<Rightarrow> None) of
        Some xs \<Rightarrow>
          if length xs \<ge> 6 then
            VDict [(''timestamp'', xs ! 0), (''open'', xs ! 1), (''high'', xs ! 2),
                   (''low'', xs ! 3), (''close'', xs ! 4), (''volume'', xs ! 5)]
          else if length xs = 5 then
            VDict [(''timestamp'', xs ! 0), (''open'', xs ! 1), (''high'', xs ! 2),
                   (''low'', xs ! 3), (''close'', xs ! 4), (''volume'', VStr ''0'')]
          else data
      | None \<Rightarrow> data)"

definition test_OHLCEntry_validate :: "pyval \<Rightarrow> line_error list + OHCLEntry" where
  "test_OHLCEntry_validate v =
     (case model_input ''OHLCEntry'' (test_parse_list v) of
        Inl es \<Rightarrow> Inl es
      | Inr d \<Rightarrow> OHCLEntry_fields d)"

section \<open>Plain decimal literals\<close>

text \<open>
  The literals that \<open>str\<close> gives back as they were written: an optional minus sign,
  an integer part of digits without a superfluous leading zero, and optionally a point
  followed by at least one digit; no plus sign, no exponent, no underscore, no blank.
  When the integer part is \<open>0\<close>, at most five zeros follow the point before the first
  other digit (at most six when there is no other digit): a smaller number is printed
  by \<open>str\<close> with an exponent.
\<close>

definition plain_decimal_literal :: "string \<Rightarrow> bool" where
  "plain_decimal_literal s =
     (let r = (case s of [] \<Rightarrow> [] | c # t \<Rightarrow> if c = CHR ''-'' then t else s);
          ip = takeWhile (\<lambda>c. c \<noteq> CHR ''.'') r;
          fr = dropWhile (\<lambda>c. c \<noteq> CHR ''.'') r;
          fp = tl fr
      in ip \<noteq> [] \<and> list_all is_digit ip \<and> list_all is_digit fp \<and> (fr = [] \<or> fp \<noteq> []) \<and>
         (if ip = ''0''
          then length (takeWhile (\<lambda>c. c = CHR ''0'') fp) \<le> 5 \<or>
               (list_all (\<lambda>c. c = CHR ''0'') fp \<and> length fp \<le> 6)
          else hd ip \<noteq> CHR ''0''))"

section \<open>Properties\<close>

subsection \<open>Evaluation lemmas\<close>

lemma type_name_simps [simp]:
  "type_name VNone = ''NoneType''"
  "type_name (VBool b) = ''bool''"
  "type_name (VInt i) = ''int''"
  "type_name (VStr s) = ''str''"
  "type_name (VDecimal d) = ''decimal.Decimal''"
  "type_name (VDatetime t) = ''datetime.datetime''"
  "type_name (VList xs) = ''list''"
  "type_name (VTuple xs) = ''tuple''"
  "type_name (VDict kvs) = ''dict''"
  by (simp_all add: type_name_def)

lemma errors_of_simps [simp]:
  "errors_of (Inl es) = es"
  "errors_of (Inr x) = []"
  by (simp_all add: errors_of_def)

lemma model_input_simps [simp]:
  "model_input cls (VDict d) = Inr d"
  "model_input cls VNone = Inl [LineError [] (ModelType cls) VNone]"
  "model_input cls (VBool b) = Inl [LineError [] (ModelType cls) (VBool b)]"
  "model_input cls (VInt i) = Inl [LineError [] (ModelType cls) (VInt i)]"
  "model_input cls (VStr s) = Inl [LineError [] (ModelType cls) (VStr s)]"
  "model_input cls (VDecimal x) = Inl [LineError [] (ModelType cls) (VDecimal x)]"
  "model_input cls (VDatetime t) = Inl [LineError [] (ModelType cls) (VDatetime t)]"
  "model_input cls (VList xs) = Inl [LineError [] (ModelType cls) (VList xs)]"
  "model_input cls (VTuple xs) = Inl [LineError [] (ModelType cls) (VTuple xs)]"
  by (simp_all add: model_input_def)

text \<open>
  The before-validator of the schema module reads \<open>self.high\<close> first, and no raw value
  has such an attribute: every validation call of \<open>OHCLEntry\<close> ends there.
\<close>

lemma validate_high_low_raises:
  "validate_high_low v = Inl (AttributeError (type_name v) ''high'')"
  by (simp add: validate_high_low_def py_getattr_def bind_def)

lemma OHCLEntry_validate_raises:
  "OHCLEntry_validate v = Inl (AttributeError (type_name v) ''high'')"
  by (simp add: OHCLEntry_validate_def validate_high_low_raises)

lemma parse_list_six:
  "6 \<le> length xs \<Longrightarrow>
   parse_list (VList xs) =
     VDict [(''timestamp'', xs ! 0), (''open'', xs ! 1), (''high'', xs ! 2),
            (''low'', xs ! 3), (''close'', xs ! 4), (''volume'', xs ! 5)]"
  by (simp add: parse_list_def)

lemma parse_list_five:
  "length xs = 5 \<Longrightarrow>
   parse_list (VList xs) =
     VDict [(''timestamp'', xs ! 0), (''open'', xs ! 1), (''high'', xs ! 2),
            (''low'', xs ! 3), (''close'', xs ! 4),
            (''volume'', VDecimal \<lparr>dec_sign = False, dec_int = ''0'', dec_exp = 0\<rparr>)]"
  by (simp add: parse_list_def)

lemma parse_list_dict: "parse_list (VDict d) = VDict d"
  by (simp add: parse_list_def)

lemma test_parse_list_dict: "test_parse_list (VDict d) = VDict d"
  by (simp add: test_parse_list_def)

text \<open>
  In the class of the test suite the positional and the keyed form of a candle meet
  in the same dictionary before any field is read, so they validate alike.
\<close>

lemma test_OHLCEntry_positional_keyed:
  "6 \<le> length xs \<Longrightarrow>
   test_OHLCEntry_validate (VList xs) =
   test_OHLCEntry_validate
     (VDict [(''timestamp'', xs ! 0), (''open'', xs ! 1), (''high'', xs ! 2),
             (''low'', xs ! 3), (''close'', xs ! 4), (''volume'', xs ! 5)])"
  by (simp add: test_OHLCEntry_validate_def test_parse_list_def)

subsection \<open>Positional and keyed candles\<close>

text \<open>
  The two pieces of the schema module fit: were \<open>parse_list\<close> applied before the
  fields are read, the positional and the keyed form would validate alike there too.
\<close>

lemma parse_list_then_fields:
  "6 \<le> length xs \<Longrightarrow>
   OHCLEntry_model_fields (parse_list (VList xs)) =
   OHCLEntry_model_fields (parse_list
     (VDict [(''timestamp'', xs ! 0), (''open'', xs ! 1), (''high'', xs ! 2),
             (''low'', xs ! 3), (''close'', xs ! 4), (''volume'', xs ! 5)]))"
  by (simp add: parse_list_def)

text \<open>
  C1. The claim: for valid candle field values, validating the 6-element positional
  sequence and validating the equivalent keyed record both succeed and give the same
  entry. In the schema module neither succeeds: \<open>OHCLEntry\<close> has \<open>parse_list\<close> as an
  unregistered class method and \<open>validate_high_low\<close> as a before-validator, which is
  handed the raw sequence or dictionary and raises \<open>AttributeError\<close> on \<open>self.high\<close>.
  The theorem evaluates both forms of the candle of the specification.
\<close>

theorem C1_positional_and_keyed_both_raise:
  "OHCLEntry_validate
     (VList [VInt 1699000000000, VStr ''50000.5'', VStr ''51000.0'', VStr ''49500.0'',
             VStr ''50500.0'', VStr ''100.5'']) = Inl (AttributeError ''list'' ''high'')
   \<and> OHCLEntry_validate
     (VDict [(''timestamp'', VInt 1699000000000), (''open'', VStr ''50000.5''),
             (''high'', VStr ''51000.0''), (''low'', VStr ''49500.0''),
             (''close'', VStr ''50500.0''), (''volume'', VStr ''100.5'')])
       = Inl (AttributeError ''dict'' ''high'')"
  by (simp add: OHCLEntry_validate_raises)

subsection \<open>The high/low check\<close>

text \<open>
  The class of the test suite has no high/low check: it takes the candle whose high
  is below its open.
\<close>

lemma test_OHLCEntry_accepts_high_below_open:
  "test_OHLCEntry_validate
     (VList [VInt 0, VStr ''100'', VStr ''90'', VStr ''50'', VStr ''95'', VStr ''1'']) =
   Inr \<lparr>ohcl_timestamp = 0,
        ohcl_open = \<lparr>dec_sign = False, dec_int = ''100'', dec_exp = 0\<rparr>,
        ohcl_high = \<lparr>dec_sign = False, dec_int = ''90'', dec_exp = 0\<rparr>,
        ohcl_low = \<lparr>dec_sign = False, dec_int = ''50'', dec_exp = 0\<rparr>,
        ohcl_close = \<lparr>dec_sign = False, dec_int = ''95'', dec_exp = 0\<rparr>,
        ohcl_volume = \<lparr>dec_sign = False, dec_int = ''1'', dec_exp = 0\<rparr>\<rparr>"
  by code_simp

text \<open>
  C2. The claim: a raw candle whose coerced fields break \<open>high >= max(open, close)\<close> or
  \<open>low <= min(open, close)\<close> fails with an invariant error. The schema module means to
  raise \<open>ValueError("High must be >= max(open, close)")\<close>, but the check sits in a
  before-validator that reads attributes of the raw input: on the candle of the
  specification the call ends in \<open>AttributeError\<close> before any comparison, as it does
  for every candle, valid or not.
\<close>

theorem C2_invariant_check_never_reached:
  "OHCLEntry_validate
     (VList [VInt 0, VStr ''100'', VStr ''90'', VStr ''50'', VStr ''95'', VStr ''1''])
   = Inl (AttributeError ''list'' ''high'')"
  by (simp add: OHCLEntry_validate_raises)

subsection \<open>The default volume\<close>

text \<open>
  In the class of the test suite a 5-element candle validates, with the volume zero.
\<close>

lemma test_OHLCEntry_five_elements:
  "test_OHLCEntry_validate
     (VList [VInt 1699000000000, VStr ''50000'', VStr ''51000'', VStr ''49500'', VStr ''50500'']) =
   Inr \<lparr>ohcl_timestamp = 1699000000000,
        ohcl_open = \<lparr>dec_sign = False, dec_int = ''50000'', dec_exp = 0\<rparr>,
        ohcl_high = \<lparr>dec_sign = False, dec_int = ''51000'', dec_exp = 0\<rparr>,
        ohcl_low = \<lparr>dec_sign = False, dec_int = ''49500'', dec_exp = 0\<rparr>,
        ohcl_close = \<lparr>dec_sign = False, dec_int = ''50500'', dec_exp = 0\<rparr>,
        ohcl_volume = \<lparr>dec_sign = False, dec_int = ''0'', dec_exp = 0\<rparr>\<rparr>"
  by code_simp

text \<open>
  So would it in the schema module, were \<open>parse_list\<close> applied before the fields are
  read.
\<close>

lemma parse_list_then_fields_five_elements:
  "OHCLEntry_model_fields (parse_list
     (VList [VInt 1699000000000, VStr ''50000'', VStr ''51000'', VStr ''49500'', VStr ''50500''])) =
   Inr \<lparr>ohcl_timestamp = 1699000000000,
        ohcl_open = \<lparr>dec_sign = False, dec_int = ''50000'', dec_exp = 0\<rparr>,
        ohcl_high = \<lparr>dec_sign = False, dec_int = ''51000'', dec_exp = 0\<rparr>,
        ohcl_low = \<lparr>dec_sign = False, dec_int = ''49500'', dec_exp = 0\<rparr>,
        ohcl_close = \<lparr>dec_sign = False, dec_int = ''50500'', dec_exp = 0\<rparr>,
        ohcl_volume = \<lparr>dec_sign = False, dec_int = ''0'', dec_exp = 0\<rparr>\<rparr>"
  by code_simp

text \<open>
  C3. The claim: a 5-element positional candle with valid fields validates and its
  volume is the decimal zero. \<open>parse_list\<close> of the schema module does put
  \<open>Decimal("0")\<close> under \<open>volume\<close> (\<open>parse_list_five\<close>), but validation never calls it:
  the 5-element candle of the specification ends in \<open>AttributeError\<close>.
\<close>

theorem C3_five_element_candle_raises:
  "OHCLEntry_validate
     (VList [VInt 1699000000000, VStr ''50000'', VStr ''51000'', VStr ''49500'', VStr ''50500''])
   = Inl (AttributeError ''list'' ''high'')"
  by (simp add: OHCLEntry_validate_raises)

subsection \<open>Sequences of other lengths\<close>

text \<open>
  \<open>parse_list\<close> returns a list or tuple whose length is neither 5 nor at least 6 as
  it is; it has no error path of its own for such lengths.
\<close>

lemma parse_list_other_length:
  assumes "length xs \<noteq> 5" and "\<not> 6 \<le> length xs"
  shows "parse_list (VList xs) = VList xs"
    and "parse_list (VTuple xs) = VTuple xs"
  using assms by (simp_all add: parse_list_def)

text \<open>
  The class of the test suite, whose validation does call its \<open>parse_list\<close>, hands
  such a sequence to the fields as it is, and the model rejects it as a whole with one
  \<open>model_type\<close> line (the input is no dictionary) that names no field.
\<close>

lemma test_OHLCEntry_other_length:
  assumes "length xs \<noteq> 5" and "\<not> 6 \<le> length xs"
  shows "test_OHLCEntry_validate (VList xs) = Inl [LineError [] (ModelType ''OHLCEntry'') (VList xs)]"
    and "test_OHLCEntry_validate (VTuple xs) = Inl [LineError [] (ModelType ''OHLCEntry'') (VTuple xs)]"
  using assms by (simp_all add: test_parse_list_def test_OHLCEntry_validate_def)

text \<open>
  C8. The claim: a sequence whose length is neither 5 nor at least 6 is returned
  unchanged by the shape normalisation, and the field-level validation of that raw
  value then fails by reporting the required fields as missing. \<open>parse_list\<close> does
  return such a sequence unchanged, but validation in the schema module neither calls
  \<open>parse_list\<close> nor gets as far as the fields: the before-validator
  \<open>validate_high_low\<close> is handed the raw sequence and raises \<open>AttributeError\<close> on
  \<open>self.high\<close>. The theorem evaluates a sequence of four elements and the empty
  tuple; no error line, for a missing field or otherwise, is produced for any
  sequence.
\<close>

theorem C8_short_sequence_raises:
  "parse_list (VList [VInt 1699000000000, VStr ''50000'', VStr ''51000'', VStr ''49500''])
     = VList [VInt 1699000000000, VStr ''50000'', VStr ''51000'', VStr ''49500'']
   \<and> OHCLEntry_validate
       (VList [VInt 1699000000000, VStr ''50000'', VStr ''51000'', VStr ''49500''])
     = Inl (AttributeError ''list'' ''high'')
   \<and> parse_list (VTuple []) = VTuple []
   \<and> OHCLEntry_validate (VTuple []) = Inl (AttributeError ''tuple'' ''high'')
   \<and> (\<forall>xs. OHCLEntry_validate (VList xs) = Inl (AttributeError ''list'' ''high''))
   \<and> (\<forall>xs. OHCLEntry_validate (VTuple xs) = Inl (AttributeError ''tuple'' ''high''))"
  by (simp add: parse_list_def OHCLEntry_validate_raises)

subsection \<open>Negative and zero quantities\<close>

text \<open>
  The class of the test suite takes the candle of its test
  \<open>test_negative_values_rejected\<close>, whose open is negative.
\<close>

lemma test_OHLCEntry_accepts_negative_open:
  "test_OHLCEntry_validate
     (VList [VInt 1699000000000, VStr ''-50000'', VStr ''51000'', VStr ''49500'',
             VStr ''50500'', VStr ''100'']) =
   Inr \<lparr>ohcl_timestamp = 1699000000000,
        ohcl_open = \<lparr>dec_sign = True, dec_int = ''50000'', dec_exp = 0\<rparr>,
        ohcl_high = \<lparr>dec_sign = False, dec_int = ''51000'', dec_exp = 0\<rparr>,
        ohcl_low = \<lparr>dec_sign = False, dec_int = ''49500'', dec_exp = 0\<rparr>,
        ohcl_close = \<lparr>dec_sign = False, dec_int = ''50500'', dec_exp = 0\<rparr>,
        ohcl_volume = \<lparr>dec_sign = False, dec_int = ''100'', dec_exp = 0\<rparr>\<rparr>"
  by code_simp

text \<open>
  C9. The claim: some candle with negative or zero prices or volume (its high and low
  still in order) validates. The schema module has no sign check indeed, but it has no
  candle that validates either: a candle with negative prices and zero volume, high
  and low in order, ends in \<open>AttributeError\<close>, and so does every raw value.
\<close>

theorem C9_negative_candle_raises:
  "OHCLEntry_validate
     (VList [VInt 1699000000000, VStr ''-50000'', VStr ''-49000'', VStr ''-51000'',
             VStr ''-50500'', VStr ''0'']) = Inl (AttributeError ''list'' ''high'')
   \<and> (\<forall>v. isl (OHCLEntry_validate v))"
  by (simp add: OHCLEntry_validate_raises)

subsection \<open>Integers and date-time values as text\<close>






















subsection \<open>Trade entries\<close>

lemma field_Some:
  "map_of d n = Some v \<Longrightarrow>
   field d n val = (case val v of Inl es \<Rightarrow> Inl (map (at_loc (LStr n)) es) | Inr x \<Rightarrow> Inr x)"
  by (simp add: field_def)

lemma field_None:
  "map_of d n = None \<Longrightarrow> field d n val = Inl [LineError [LStr n] Missing (VDict d)]"
  by (simp add: field_def)

lemma at_loc_LineError [simp]: "at_loc l (LineError p t v) = LineError (l # p) t v"
  by (simp add: at_loc_def)

lemma TradeEntry_validate_dict [simp]: "TradeEntry_validate (VDict d) = TradeEntry_fields d"
  by (simp add: TradeEntry_validate_def)

lemma timestamp_validator_cases:
  "timestamp_validator v =
     (case v of
        VDatetime t \<Rightarrow> Inr (isoformat CHR ''T'' t)
      | _ \<Rightarrow> (case py_str v of
               Inl msg \<Rightarrow> Inl [LineError [] (ValueErrorType msg) v]
             | Inr s \<Rightarrow> Inr s))"
  by (cases v)
    (simp_all add: timestamp_validator_def validate_timestamp_def str_validator_def
      split: sum.splits)

lemma timestamp_validator_not_empty: "timestamp_validator v \<noteq> Inl []"
  by (simp add: timestamp_validator_cases split: pyval.splits sum.splits)


lemma literal_validator_cases:
  "literal_validator ex v =
     (if \<exists>s. v = VStr s \<and> s \<in> set ex then Inr (case v of VStr s \<Rightarrow> s)
      else Inl [LineError [] (LiteralError ex) v])"
  by (cases v) (auto simp: literal_validator_def)

lemma trade_type_field:
  assumes "map_of d ''type'' = Some v"
  shows "field d ''type'' (literal_validator [''buy'', ''sell'']) =
      (if v = VStr ''buy'' \<or> v = VStr ''sell'' then Inr (case v of VStr s \<Rightarrow> s)
       else Inl [LineError [LStr ''type''] (LiteralError [''buy'', ''sell'']) v])"
  using assms by (auto simp: field_Some literal_validator_cases)

text \<open>
  Whatever the other fields are, a \<open>type\<close> that is not one of the two tokens puts its
  line into the error, and a token puts none.
\<close>

lemma trade_type_error_line:
  assumes "map_of d ''type'' = Some v"
  shows "(LineError [LStr ''type''] (LiteralError [''buy'', ''sell'']) v
            \<in> set (errors_of (TradeEntry_validate (VDict d))))
         = (v \<noteq> VStr ''buy'' \<and> v \<noteq> VStr ''sell'')"
proof -
  have others: "LineError [LStr ''type''] (LiteralError [''buy'', ''sell'']) v
      \<notin> set (errors_of (field d n val))" if "n \<noteq> ''type''" for n and val :: "pyval \<Rightarrow> line_error list + 'a"
    using that by (auto simp: field_def at_loc_def split: option.splits sum.splits)
  show ?thesis
    using others [of "''market''" str_validator] others [of "''price''" decimal_validator]
      others [of "''amount''" decimal_validator] others [of "''total''" decimal_validator]
      others [of "''timestamp''" timestamp_validator]
    by (auto simp: TradeEntry_fields_def Let_def trade_type_field [OF assms])
qed

text \<open>
  C5. With the other fields of a trade valid, validation succeeds exactly when the
  \<open>type\<close> is the string \<open>buy\<close> or the string \<open>sell\<close>, and the entry stores that
  token; for any other value (another string, another case, a value that is no
  string) it fails with one error line, at \<open>type\<close>, that carries the two accepted
  tokens and the value given. The other fields are the market, the three amounts and
  the timestamp (which is valid unless its conversion to a string raises, see C6).
\<close>

theorem C5_trade_type_literal:
  assumes "field d ''market'' str_validator = Inr m"
    and "field d ''price'' decimal_validator = Inr p"
    and "field d ''amount'' decimal_validator = Inr a"
    and "field d ''total'' decimal_validator = Inr tot"
    and "field d ''timestamp'' timestamp_validator = Inr ts"
    and "map_of d ''type'' = Some v"
  shows "((v = VStr ''buy'' \<or> v = VStr ''sell'') \<longrightarrow>
            (\<exists>t. TradeEntry_validate (VDict d) = Inr t \<and> VStr (trade_type t) = v))
       \<and> (\<not> (v = VStr ''buy'' \<or> v = VStr ''sell'') \<longrightarrow>
            TradeEntry_validate (VDict d) =
              Inl [LineError [LStr ''type''] (LiteralError [''buy'', ''sell'']) v])"
  using assms(1-5) trade_type_field [OF assms(6)]
  by (auto simp: TradeEntry_fields_def Let_def)

theorem C5_trade_type_literal_witness:
  "(\<exists>t. TradeEntry_validate
          (VDict [(''market'', VStr ''BTC-USDT''), (''price'', VStr ''50000''),
                  (''amount'', VStr ''0.1''), (''total'', VStr ''5000''),
                  (''type'', VStr ''sell''),
                  (''timestamp'', VStr ''2024-01-01T10:00:00+00:00'')]) = Inr t
        \<and> trade_type t = ''sell'')
   \<and> TradeEntry_validate
          (VDict [(''market'', VStr ''BTC-USDT''), (''price'', VStr ''50000''),
                  (''amount'', VStr ''0.1''), (''total'', VStr ''5000''),
                  (''type'', VStr ''Buy''),
                  (''timestamp'', VStr ''2024-01-01T10:00:00+00:00'')])
       = Inl [LineError [LStr ''type''] (LiteralError [''buy'', ''sell'']) (VStr ''Buy'')]"
proof -
  let ?d = "\<lambda>ty. [(''market'', VStr ''BTC-USDT''), (''price'', VStr ''50000''),
                  (''amount'', VStr ''0.1''), (''total'', VStr ''5000''),
                  (''type'', ty), (''timestamp'', VStr ''2024-01-01T10:00:00+00:00'')]"
  have m: "field (?d ty) ''market'' str_validator = Inr ''BTC-USDT''" for ty
    by (simp add: field_def str_validator_def)
  have p: "Decimal_of_str ''50000'' = Finite \<lparr>dec_sign = False, dec_int = ''50000'', dec_exp = 0\<rparr>"
    by code_simp
  have a: "Decimal_of_str ''0.1'' = Finite \<lparr>dec_sign = False, dec_int = ''1'', dec_exp = - 1\<rparr>"
    by code_simp
  have t: "Decimal_of_str ''5000'' = Finite \<lparr>dec_sign = False, dec_int = ''5000'', dec_exp = 0\<rparr>"
    by code_simp
  have fp: "field (?d ty) ''price'' decimal_validator
      = Inr \<lparr>dec_sign = False, dec_int = ''50000'', dec_exp = 0\<rparr>" for ty
    by (simp add: field_def decimal_validator_def p)
  have fa: "field (?d ty) ''amount'' decimal_validator
      = Inr \<lparr>dec_sign = False, dec_int = ''1'', dec_exp = - 1\<rparr>" for ty
    by (simp add: field_def decimal_validator_def a)
  have ft: "field (?d ty) ''total'' decimal_validator
      = Inr \<lparr>dec_sign = False, dec_int = ''5000'', dec_exp = 0\<rparr>" for ty
    by (simp add: field_def decimal_validator_def t)
  have ts: "field (?d ty) ''timestamp'' timestamp_validator = Inr ''2024-01-01T10:00:00+00:00''" for ty
    by (simp add: field_def timestamp_validator_cases py_str_def)
  have ty: "map_of (?d ty) ''type'' = Some ty" for ty
    by simp
  show ?thesis
    using C5_trade_type_literal [OF m fp fa ft ts ty, of "VStr ''sell''"]
      C5_trade_type_literal [OF m fp fa ft ts ty, of "VStr ''Buy''"]
    by auto
qed

lemma py_str_VStr [simp]: "py_str (VStr s) = Inr s"
  by (simp add: py_str_def)



subsection \<open>Decimal strings\<close>

text \<open>
  A plain literal parses into its own digits, and \<open>str\<close> prints them back.
\<close>

lemma digit_facts:
  assumes "is_digit c"
  shows "\<not> is_space c" "c \<noteq> CHR ''_''" "c \<noteq> CHR ''-''" "c \<noteq> CHR ''+''" "c \<noteq> CHR ''.''"
  using assms by (auto simp: is_digit_def is_space_def)

lemma char_facts [simp]:
  "\<not> is_digit (CHR ''.'')" "\<not> is_space (CHR ''-'')" "\<not> is_space (CHR ''.'')"
  "is_digit (CHR ''0'')"
  by (simp_all add: is_digit_def is_space_def)

lemma strip_id:
  assumes "s \<noteq> []" "\<not> is_space (hd s)" "\<not> is_space (last s)"
  shows "strip s = s"
proof -
  have "dropWhile is_space s = s"
    using assms by (simp add: dropWhile_eq_self_iff)
  moreover have "dropWhile is_space (rev s) = rev s"
    using assms by (simp add: dropWhile_eq_self_iff hd_rev)
  ultimately show ?thesis by (simp add: strip_def)
qed

lemma digits_takeWhile: "list_all is_digit xs \<Longrightarrow> takeWhile is_digit xs = xs"
  by (simp add: list_all_iff)

lemma digits_dropWhile: "list_all is_digit xs \<Longrightarrow> dropWhile is_digit xs = []"
  by (simp add: list_all_iff)

lemma Decimal_of_str_plain:
  assumes "ip \<noteq> []" "list_all is_digit ip" "list_all is_digit fp"
  shows "Decimal_of_str ((if neg then ''-'' else '''') @ ip @ (if fp = [] then [] else CHR ''.'' # fp))
       = (if int (length fp) \<le> 999999999999999999 \<and>
             decimal_exact (str_int_digits (ip @ fp)) (- int (length fp))
          then Finite \<lparr>dec_sign = neg, dec_int = str_int_digits (ip @ fp), dec_exp = - int (length fp)\<rparr>
          else Invalid)"
proof -
  let ?frac = "if fp = [] then [] else CHR ''.'' # fp"
  let ?s = "(if neg then ''-'' else '''') @ ip @ ?frac"
  have dig: "\<And>c. c \<in> set ip \<or> c \<in> set fp \<Longrightarrow> is_digit c"
    using assms by (auto simp: list_all_iff)
  have hd_ip: "is_digit (hd ip)" and last_ip: "is_digit (last ip)"
    using assms(1) dig by auto
  have last_fp: "fp \<noteq> [] \<Longrightarrow> is_digit (last fp)"
    using dig by auto
  have "?s \<noteq> []" using assms(1) by simp
  moreover have "\<not> is_space (hd ?s)"
    using hd_ip assms(1) by (auto simp: digit_facts hd_append)
  moreover have "\<not> is_space (last ?s)"
    using last_ip last_fp assms(1) by (auto simp: digit_facts)
  ultimately have strip: "strip ?s = ?s"
    by (rule strip_id)
  have filt: "filter (\<lambda>c. c \<noteq> CHR ''_'') ?s = ?s"
    using dig by (auto simp: filter_id_conv digit_facts)
  have sign: "split_sign ?s = (neg, ip @ ?frac)"
    using hd_ip assms(1) by (cases ip) (auto simp: split_sign_def digit_facts)
  have tw: "takeWhile is_digit (ip @ CHR ''.'' # fp) = ip"
    using assms(2) by (auto simp: list_all_iff)
  have dw: "dropWhile is_digit (ip @ CHR ''.'' # fp) = CHR ''.'' # fp"
    using assms(2) by (auto simp: list_all_iff)
  show ?thesis
    unfolding Decimal_of_str_def strip filt
    using assms
    by (simp add: sign tw dw Let_def digits_takeWhile digits_dropWhile parse_exponent_def)
qed

text \<open>The bounds of the exponent, at their edges.\<close>

lemma Decimal_of_str_exponent_bounds:
  "Decimal_of_str ''1E999999999999999999''
     = Finite \<lparr>dec_sign = False, dec_int = ''1'', dec_exp = 999999999999999999\<rparr>"
  "Decimal_of_str ''1E1000000000000000000'' = Invalid"
  "Decimal_of_str ''10E999999999999999999'' = Invalid"
  "Decimal_of_str ''0.1E1000000000000000000''
     = Finite \<lparr>dec_sign = False, dec_int = ''1'', dec_exp = 999999999999999999\<rparr>"
  "Decimal_of_str ''0.00E1000000000000000001''
     = Finite \<lparr>dec_sign = False, dec_int = ''0'', dec_exp = 999999999999999999\<rparr>"
  "Decimal_of_str ''0E1000000000000000000'' = Invalid"
  "Decimal_of_str ''1.0E-1999999999999999996''
     = Finite \<lparr>dec_sign = False, dec_int = ''10'', dec_exp = - 1999999999999999997\<rparr>"
  "Decimal_of_str ''1E-1999999999999999998'' = Invalid"
  "Decimal_of_str ''0.0E-1999999999999999997'' = Invalid"
  by code_simp+

lemma str_int_digits_canonical:
  assumes "ds \<noteq> []" "hd ds \<noteq> CHR ''0''"
  shows "str_int_digits ds = ds"
  using assms by (cases ds) (simp_all add: str_int_digits_def)

lemma str_int_digits_zeros:
  assumes "list_all (\<lambda>c. c = CHR ''0'') ds"
  shows "str_int_digits ds = ''0''"
  using assms by (induction ds) (simp_all add: str_int_digits_def)

lemma str_int_digits_leading:
  assumes "\<not> list_all (\<lambda>c. c = CHR ''0'') ds"
  shows "str_int_digits ds = dropWhile (\<lambda>c. c = CHR ''0'') ds"
proof -
  have "dropWhile (\<lambda>c. c = CHR ''0'') ds \<noteq> []"
    using assms by (auto simp: list_all_iff)
  then obtain x xs where "dropWhile (\<lambda>c. c = CHR ''0'') ds = x # xs"
    by (cases "dropWhile (\<lambda>c. c = CHR ''0'') ds") auto
  then show ?thesis
    by (simp add: str_int_digits_def)
qed

lemma zeros_replicate:
  "list_all (\<lambda>c. c = x) ds \<Longrightarrow> replicate (length ds) x = ds"
  by (induction ds) auto

lemma leading_zeros_split:
  "replicate (length (takeWhile (\<lambda>c. c = x) ds)) x @ dropWhile (\<lambda>c. c = x) ds = ds"
  by (induction ds) auto

lemma length_leading_zeros:
  "length (dropWhile P ds) = length ds - length (takeWhile P ds)"
  by (induction ds) auto

lemma decimal_str_canonical:
  assumes "ip \<noteq> []" and "hd ip \<noteq> CHR ''0''"
  shows "decimal_str \<lparr>dec_sign = neg, dec_int = ip @ fp, dec_exp = - int (length fp)\<rparr>
       = (if neg then ''-'' else '''') @ ip @ (if fp = [] then [] else CHR ''.'' # fp)"
  using assms by (simp add: decimal_str_def Let_def)

lemma decimal_str_zero:
  assumes "n \<le> 6"
  shows "decimal_str \<lparr>dec_sign = neg, dec_int = ''0'', dec_exp = - int n\<rparr>
       = (if neg then ''-'' else '''') @ ''0'' @ (if n = 0 then [] else CHR ''.'' # replicate n (CHR ''0''))"
proof (cases n)
  case 0
  then show ?thesis by (simp add: decimal_str_def Let_def)
next
  case (Suc m)
  have "replicate m CHR ''0'' @ ''0'' = replicate (Suc m) CHR ''0''"
    by (simp only: replicate_append_same replicate_Suc)
  then show ?thesis
    using assms Suc by (simp add: decimal_str_def Let_def)
qed

lemma decimal_str_fraction:
  assumes "r \<noteq> []" and "z \<le> 5"
  shows "decimal_str \<lparr>dec_sign = neg, dec_int = r, dec_exp = - int (z + length r)\<rparr>
       = (if neg then ''-'' else '''') @ ''0'' @ CHR ''.'' # replicate z (CHR ''0'') @ r"
  using assms by (simp add: decimal_str_def Let_def)

lemma decimal_str_leading_digit:
  assumes "ip \<noteq> []" and hd: "hd ip \<noteq> CHR ''0''"
  shows "decimal_str \<lparr>dec_sign = neg, dec_int = str_int_digits (ip @ fp), dec_exp = - int (length fp)\<rparr>
       = (if neg then ''-'' else '''') @ ip @ (if fp = [] then [] else CHR ''.'' # fp)"
proof -
  from assms have "str_int_digits (ip @ fp) = ip @ fp"
    by (simp add: str_int_digits_canonical)
  then show ?thesis
    by (simp only: decimal_str_canonical [OF assms(1) hd, of neg fp])
qed

lemma decimal_str_zero_fraction:
  assumes "list_all (\<lambda>c. c = CHR ''0'') fp" and len: "length fp \<le> 6"
  shows "decimal_str \<lparr>dec_sign = neg, dec_int = str_int_digits (''0'' @ fp), dec_exp = - int (length fp)\<rparr>
       = (if neg then ''-'' else '''') @ ''0'' @ (if fp = [] then [] else CHR ''.'' # fp)"
proof -
  from assms(1) have ds: "str_int_digits (''0'' @ fp) = ''0''"
    by (simp add: str_int_digits_zeros)
  have fp: "(length fp = 0) = (fp = [])"
    by simp
  show ?thesis
    by (simp only: ds decimal_str_zero [OF len, of neg] zeros_replicate [OF assms(1)] fp)
qed

lemma decimal_str_small_fraction:
  assumes "\<not> list_all (\<lambda>c. c = CHR ''0'') fp"
    and z: "length (takeWhile (\<lambda>c. c = CHR ''0'') fp) \<le> 5"
  shows "decimal_str \<lparr>dec_sign = neg, dec_int = str_int_digits (''0'' @ fp), dec_exp = - int (length fp)\<rparr>
       = (if neg then ''-'' else '''') @ ''0'' @ (if fp = [] then [] else CHR ''.'' # fp)"
proof -
  let ?z = "length (takeWhile (\<lambda>c. c = CHR ''0'') fp)"
  let ?r = "dropWhile (\<lambda>c. c = CHR ''0'') fp"
  from assms(1) have ds: "str_int_digits (''0'' @ fp) = ?r"
    using str_int_digits_leading [of "''0'' @ fp"] by simp
  from assms(1) have ne: "fp \<noteq> []" and r: "?r \<noteq> []"
    by (auto simp: list_all_iff)
  have len: "length fp = ?z + length ?r"
    by (simp add: length_leading_zeros length_takeWhile_le)
  have "decimal_str \<lparr>dec_sign = neg, dec_int = ?r, dec_exp = - int (length fp)\<rparr>
      = (if neg then ''-'' else '''') @ ''0'' @ CHR ''.'' # replicate ?z (CHR ''0'') @ ?r"
    by (subst len) (rule decimal_str_fraction [OF r z])
  then show ?thesis
    by (simp only: ds leading_zeros_split ne if_False)
qed

lemma decimal_str_plain:
  assumes "ip \<noteq> []"
    and "if ip = ''0''
         then length (takeWhile (\<lambda>c. c = CHR ''0'') fp) \<le> 5 \<or>
              (list_all (\<lambda>c. c = CHR ''0'') fp \<and> length fp \<le> 6)
         else hd ip \<noteq> CHR ''0''"
  shows "decimal_str \<lparr>dec_sign = neg, dec_int = str_int_digits (ip @ fp), dec_exp = - int (length fp)\<rparr>
       = (if neg then ''-'' else '''') @ ip @ (if fp = [] then [] else CHR ''.'' # fp)"
proof (cases "ip = ''0''")
  case False
  with assms(2) have "hd ip \<noteq> CHR ''0''"
    by simp
  with assms(1) show ?thesis
    by (rule decimal_str_leading_digit)
next
  case ip: True
  from assms(2) have c: "length (takeWhile (\<lambda>c. c = CHR ''0'') fp) \<le> 5 \<or>
      (list_all (\<lambda>c. c = CHR ''0'') fp \<and> length fp \<le> 6)"
    by (simp only: ip if_True simp_thms)
  show ?thesis
  proof (cases "list_all (\<lambda>c. c = CHR ''0'') fp")
    case True
    then have tw: "takeWhile (\<lambda>c. c = CHR ''0'') fp = fp"
      by (simp add: list_all_iff)
    have "length fp \<le> 6"
      using c unfolding tw by linarith
    with True show ?thesis
      unfolding ip by (rule decimal_str_zero_fraction)
  next
    case False
    with c have "length (takeWhile (\<lambda>c. c = CHR ''0'') fp) \<le> 5"
      by blast
    with False show ?thesis
      unfolding ip by (rule decimal_str_small_fraction)
  qed
qed

lemma plain_decimal_literal_shape:
  assumes "plain_decimal_literal s"
  obtains neg ip fp where
    "s = (if neg then ''-'' else '''') @ ip @ (if fp = [] then [] else CHR ''.'' # fp)"
    "ip \<noteq> []" "list_all is_digit ip" "list_all is_digit fp"
    "if ip = ''0''
     then length (takeWhile (\<lambda>c. c = CHR ''0'') fp) \<le> 5 \<or>
          (list_all (\<lambda>c. c = CHR ''0'') fp \<and> length fp \<le> 6)
     else hd ip \<noteq> CHR ''0''"
proof -
  define r where "r = (case s of [] \<Rightarrow> [] | c # t \<Rightarrow> if c = CHR ''-'' then t else s)"
  define neg where "neg = (s \<noteq> [] \<and> hd s = CHR ''-'')"
  define ip where "ip = takeWhile (\<lambda>c. c \<noteq> CHR ''.'') r"
  define fr where "fr = dropWhile (\<lambda>c. c \<noteq> CHR ''.'') r"
  define fp where "fp = tl fr"
  have s: "s = (if neg then ''-'' else '''') @ r"
    by (cases s) (auto simp: r_def neg_def)
  have r: "r = ip @ fr"
    by (simp add: ip_def fr_def)
  have fr: "fr = (if fr = [] then [] else CHR ''.'' # fp)"
  proof (cases fr)
    case Nil
    then show ?thesis by simp
  next
    case (Cons c t)
    then have "c = CHR ''.''"
      using hd_dropWhile [of "\<lambda>c. c \<noteq> CHR ''.''" r] by (simp add: fr_def)
    with Cons show ?thesis by (simp add: fp_def)
  qed
  from assms have p: "ip \<noteq> []" "list_all is_digit ip" "list_all is_digit fp" "fr = [] \<or> fp \<noteq> []"
    "if ip = ''0''
     then length (takeWhile (\<lambda>c. c = CHR ''0'') fp) \<le> 5 \<or>
          (list_all (\<lambda>c. c = CHR ''0'') fp \<and> length fp \<le> 6)
     else hd ip \<noteq> CHR ''0''"
    unfolding plain_decimal_literal_def Let_def r_def [symmetric] ip_def [symmetric]
      fr_def [symmetric] fp_def [symmetric]
    by simp_all
  have "fr = (if fp = [] then [] else CHR ''.'' # fp)"
    using fr p(4) by (cases "fr = []") (auto simp: fp_def)
  with s r have seq: "s = (if neg then ''-'' else '''') @ ip @ (if fp = [] then [] else CHR ''.'' # fp)"
    by simp
  show ?thesis
    by (rule that [OF seq p(1) p(2) p(3) p(5)])
qed

lemma plain_decimal_literal_str:
  assumes "plain_decimal_literal s" and "Decimal_of_str s = Finite x"
  shows "decimal_str x = s"
proof -
  from assms(1) obtain neg ip fp where
    s: "s = (if neg then ''-'' else '''') @ ip @ (if fp = [] then [] else CHR ''.'' # fp)"
    and ip: "ip \<noteq> []" "list_all is_digit ip" and fp: "list_all is_digit fp"
    and c: "if ip = ''0''
     then length (takeWhile (\<lambda>c. c = CHR ''0'') fp) \<le> 5 \<or>
          (list_all (\<lambda>c. c = CHR ''0'') fp \<and> length fp \<le> 6)
     else hd ip \<noteq> CHR ''0''"
    by (rule plain_decimal_literal_shape)
  let ?d = "\<lparr>dec_sign = neg, dec_int = str_int_digits (ip @ fp), dec_exp = - int (length fp)\<rparr>"
  from assms(2) have "x = ?d"
    unfolding s Decimal_of_str_plain [OF ip fp] by (simp split: if_splits)
  moreover have "decimal_str ?d = s"
    unfolding s using ip(1) c by (rule decimal_str_plain)
  ultimately show ?thesis
    by simp
qed

lemma length_str_int_digits: "ds \<noteq> [] \<Longrightarrow> length (str_int_digits ds) \<le> length ds"
  using length_dropWhile_le [of "\<lambda>c. c = CHR ''0''" ds]
  by (cases ds) (auto simp: str_int_digits_def split: list.splits)

text \<open>A plain literal of a length a machine can hold parses.\<close>

lemma plain_decimal_literal_roundtrip:
  assumes "plain_decimal_literal s" and len: "int (length s) \<le> 999999999999999999"
  obtains d where "Decimal_of_str s = Finite d" "decimal_str d = s"
proof -
  from assms(1) obtain neg ip fp where
    s: "s = (if neg then ''-'' else '''') @ ip @ (if fp = [] then [] else CHR ''.'' # fp)"
    and ip: "ip \<noteq> []" "list_all is_digit ip" and fp: "list_all is_digit fp"
    by (rule plain_decimal_literal_shape)
  let ?d = "\<lparr>dec_sign = neg, dec_int = str_int_digits (ip @ fp), dec_exp = - int (length fp)\<rparr>"
  have l: "length ip + length fp \<le> length s"
    unfolding s by simp
  from ip(1) have "length (str_int_digits (ip @ fp)) \<le> length ip + length fp"
    using length_str_int_digits [of "ip @ fp"] by simp
  with l len ip(1) have "int (length fp) \<le> 999999999999999999"
    and "decimal_exact (str_int_digits (ip @ fp)) (- int (length fp))"
    by (simp_all add: decimal_exact_def)
  then have p: "Decimal_of_str s = Finite ?d"
    unfolding s Decimal_of_str_plain [OF ip fp] by simp
  from assms(1) p have "decimal_str ?d = s"
    by (rule plain_decimal_literal_str)
  with p show ?thesis
    by (rule that)
qed

lemma decimal_field_of_str:
  assumes "map_of d n = Some (VStr s)" and "errors_of (field d n decimal_validator) = []"
  shows "Decimal_of_str s = Finite (projr (field d n decimal_validator))"
  using assms by (simp add: field_def decimal_validator_def split: dec_parse.splits)

lemma TradeEntry_fields_ok:
  assumes "TradeEntry_fields d = Inr t"
  shows "errors_of (field d ''price'' decimal_validator) = []"
    and "errors_of (field d ''amount'' decimal_validator) = []"
    and "errors_of (field d ''total'' decimal_validator) = []"
    and "trade_price t = projr (field d ''price'' decimal_validator)"
    and "trade_amount t = projr (field d ''amount'' decimal_validator)"
    and "trade_total t = projr (field d ''total'' decimal_validator)"
  using assms by (auto simp: TradeEntry_fields_def Let_def split: if_splits)

text \<open>A plain literal of a length a machine can hold is never refused by a decimal field.\<close>

lemma decimal_validator_plain:
  assumes "plain_decimal_literal s" and "int (length s) \<le> 999999999999999999"
  obtains x where "decimal_validator (VStr s) = Inr x" "decimal_str x = s"
proof -
  from assms obtain x where x: "Decimal_of_str s = Finite x" "decimal_str x = s"
    by (rule plain_decimal_literal_roundtrip)
  from x(1) have "decimal_validator (VStr s) = Inr x"
    by (simp add: decimal_validator_def)
  then show ?thesis
    using x(2) by (rule that)
qed

text \<open>
  The field stage of the candle model treats its five decimal fields alike; shown for
  the volume.
\<close>

lemma OHCLEntry_fields_volume_exact:
  assumes "OHCLEntry_fields d = Inr e" and "map_of d ''volume'' = Some (VStr s)"
  shows "Decimal_of_str s = Finite (ohcl_volume e)"
    and "plain_decimal_literal s \<Longrightarrow> decimal_str (ohcl_volume e) = s"
proof -
  from assms(1) have "errors_of (field d ''volume'' decimal_validator) = []"
    and "ohcl_volume e = projr (field d ''volume'' decimal_validator)"
    by (auto simp: OHCLEntry_fields_def Let_def split: if_splits)
  with decimal_field_of_str [OF assms(2)] show "Decimal_of_str s = Finite (ohcl_volume e)"
    by simp
  then show "plain_decimal_literal s \<Longrightarrow> decimal_str (ohcl_volume e) = s"
    by (simp add: plain_decimal_literal_str)
qed

text \<open>
  C4, as stated, fails: the price \<open>"0.0000001"\<close> is a decimal string, the trade
  validates, the stored price is the exact decimal (coefficient 1, exponent -7), but
  it is re-serialised as \<open>"1E-7"\<close>, not as the literal that was supplied.
\<close>

theorem C4_counterexample:
  "TradeEntry_validate
     (VDict [(''market'', VStr ''SHIB-USDT''), (''price'', VStr ''0.0000001''),
             (''amount'', VStr ''1000''), (''total'', VStr ''0.0001''),
             (''type'', VStr ''buy''), (''timestamp'', VStr ''2024-01-01T10:00:00+00:00'')])
   = Inr \<lparr>trade_market = ''SHIB-USDT'',
          trade_price = \<lparr>dec_sign = False, dec_int = ''1'', dec_exp = - 7\<rparr>,
          trade_amount = \<lparr>dec_sign = False, dec_int = ''1000'', dec_exp = 0\<rparr>,
          trade_total = \<lparr>dec_sign = False, dec_int = ''1'', dec_exp = - 4\<rparr>,
          trade_type = ''buy'', trade_timestamp = ''2024-01-01T10:00:00+00:00''\<rparr>
   \<and> decimal_str \<lparr>dec_sign = False, dec_int = ''1'', dec_exp = - 7\<rparr> = ''1E-7''
   \<and> decimal_str \<lparr>dec_sign = False, dec_int = ''1'', dec_exp = - 7\<rparr> \<noteq> ''0.0000001''"
  by code_simp

text \<open>
  C4, amended. In a validated trade, a price, amount or total that was supplied as
  the string \<open>s\<close> is stored as \<open>Decimal(s)\<close> itself: the sign, every digit and the
  exponent of the literal, with no rounding and no passage through a binary float.
  It is re-serialised as exactly \<open>s\<close> whenever \<open>s\<close> is a plain literal (see
  \<open>plain_decimal_literal\<close>), as \<open>"50000.123456789"\<close> is. Other accepted literals
  keep their value and are printed in the canonical form of \<open>Decimal\<close>.
\<close>

theorem C4_plain_decimal_strings_round_trip:
  assumes "TradeEntry_validate (VDict d) = Inr t"
  shows "(\<forall>s. map_of d ''price'' = Some (VStr s) \<longrightarrow>
            Decimal_of_str s = Finite (trade_price t) \<and>
            (plain_decimal_literal s \<longrightarrow> decimal_str (trade_price t) = s))
       \<and> (\<forall>s. map_of d ''amount'' = Some (VStr s) \<longrightarrow>
            Decimal_of_str s = Finite (trade_amount t) \<and>
            (plain_decimal_literal s \<longrightarrow> decimal_str (trade_amount t) = s))
       \<and> (\<forall>s. map_of d ''total'' = Some (VStr s) \<longrightarrow>
            Decimal_of_str s = Finite (trade_total t) \<and>
            (plain_decimal_literal s \<longrightarrow> decimal_str (trade_total t) = s))"
proof -
  from assms have ok: "TradeEntry_fields d = Inr t"
    by simp
  note f = TradeEntry_fields_ok [OF ok]
  have "Decimal_of_str s = Finite (trade_price t)" if "map_of d ''price'' = Some (VStr s)" for s
    using decimal_field_of_str [OF that f(1)] by (simp add: f(4))
  moreover have "Decimal_of_str s = Finite (trade_amount t)" if "map_of d ''amount'' = Some (VStr s)" for s
    using decimal_field_of_str [OF that f(2)] by (simp add: f(5))
  moreover have "Decimal_of_str s = Finite (trade_total t)" if "map_of d ''total'' = Some (VStr s)" for s
    using decimal_field_of_str [OF that f(3)] by (simp add: f(6))
  ultimately show ?thesis
    using plain_decimal_literal_str by blast
qed

theorem C4_plain_decimal_strings_round_trip_witness:
  "\<exists>t. TradeEntry_validate
     (VDict [(''market'', VStr ''BTC-USDT''), (''price'', VStr ''50000.123456789''),
             (''amount'', VStr ''0.987654321''), (''total'', VStr ''49350.4917''),
             (''type'', VStr ''buy''), (''timestamp'', VStr ''2024-01-01T10:00:00+00:00'')]) = Inr t
      \<and> decimal_str (trade_price t) = ''50000.123456789''
      \<and> decimal_str (trade_amount t) = ''0.987654321''
      \<and> decimal_str (trade_total t) = ''49350.4917''"
proof -
  let ?d = "[(''market'', VStr ''BTC-USDT''), (''price'', VStr ''50000.123456789''),
             (''amount'', VStr ''0.987654321''), (''total'', VStr ''49350.4917''),
             (''type'', VStr ''buy''), (''timestamp'', VStr ''2024-01-01T10:00:00+00:00'')]"
  have "TradeEntry_validate (VDict ?d)
    = Inr \<lparr>trade_market = ''BTC-USDT'',
          trade_price = \<lparr>dec_sign = False, dec_int = ''50000123456789'', dec_exp = - 9\<rparr>,
          trade_amount = \<lparr>dec_sign = False, dec_int = ''987654321'', dec_exp = - 9\<rparr>,
          trade_total = \<lparr>dec_sign = False, dec_int = ''493504917'', dec_exp = - 4\<rparr>,
          trade_type = ''buy'', trade_timestamp = ''2024-01-01T10:00:00+00:00''\<rparr>"
    by code_simp
  then obtain t where t: "TradeEntry_validate (VDict ?d) = Inr t"
    by (rule exI [THEN exE])
  have p: "plain_decimal_literal ''50000.123456789''" "plain_decimal_literal ''0.987654321''"
    "plain_decimal_literal ''49350.4917''"
    by code_simp+
  have m: "map_of ?d ''price'' = Some (VStr ''50000.123456789'')"
    "map_of ?d ''amount'' = Some (VStr ''0.987654321'')"
    "map_of ?d ''total'' = Some (VStr ''49350.4917'')"
    by simp_all
  note c = C4_plain_decimal_strings_round_trip [OF t]
  have "decimal_str (trade_price t) = ''50000.123456789''"
    using c [THEN conjunct1, rule_format, OF m(1)] p(1) by blast
  moreover have "decimal_str (trade_amount t) = ''0.987654321''"
    using c [THEN conjunct2, THEN conjunct1, rule_format, OF m(2)] p(2) by blast
  moreover have "decimal_str (trade_total t) = ''49350.4917''"
    using c [THEN conjunct2, THEN conjunct2, rule_format, OF m(3)] p(3) by blast
  ultimately show ?thesis
    using t by blast
qed

subsection \<open>Integer strings\<close>

text \<open>
  What the \<open>timestamp\<close> of a candle may be written as: a numeral, with blanks around
  it, a plus sign, leading zeros, underscores between digits, or a point and zeros
  after it; not a point alone after it, and not more than 4300 digits.
\<close>

lemma str_as_int_examples:
  "str_as_int ''1699000000000'' = Inr 1699000000000"
  "str_as_int '' -42 '' = Inr (- 42)"
  "str_as_int ''+5'' = Inr 5"
  "str_as_int ''007'' = Inr 7"
  "str_as_int ''1_000'' = Inr 1000"
  "str_as_int ''1.0'' = Inr 1"
  "str_as_int ''00.00'' = Inr 0"
  "str_as_int ''1.'' = Inl IntParsing"
  "str_as_int ''1.5'' = Inl IntParsing"
  "str_as_int ''1__000'' = Inl IntParsing"
  "str_as_int ''_1'' = Inl IntParsing"
  "str_as_int '''' = Inl IntParsing"
  "str_as_int ''12a'' = Inl IntParsing"
  by code_simp+

lemma str_as_int_size:
  assumes "ds \<noteq> []" and "list_all is_digit ds" and "hd ds \<noteq> CHR ''0''" and "4300 < length ds"
  shows "str_as_int ds = Inl IntParsingSize"
proof -
  have d: "is_digit c \<Longrightarrow> \<not> is_trim_space c \<and> c \<noteq> CHR ''-''" for c
    by (auto simp: is_digit_def is_trim_space_def)
  from assms(1,2) have h: "is_digit (hd ds)" and l: "is_digit (last ds)"
    by (auto simp: list_all_iff)
  have "dropWhile is_trim_space ds = ds"
    using assms(1) h d by (simp add: dropWhile_eq_self_iff)
  moreover have "dropWhile is_trim_space (rev ds) = rev ds"
    using assms(1) l d by (simp add: dropWhile_eq_self_iff hd_rev)
  ultimately have trim: "rev (dropWhile is_trim_space (rev (dropWhile is_trim_space ds))) = ds"
    by simp
  from assms(1) h d have neg: "take 1 ds \<noteq> ''-''"
    by (cases ds) auto
  from assms(1,3) have z: "take 1 ds \<noteq> ''0''"
    by (cases ds) auto
  have "number_int ds = IntTooLong"
    using assms(1,4) neg z
    by (simp add: number_int_def Let_def digits_takeWhile [OF assms(2)])
  then show ?thesis
    by (simp add: str_as_int_def trim)
qed

subsection \<open>Unknown keys\<close>

text \<open>
  No validator of a field fails without an error line, so a field is valid exactly
  when it has no line, and two dictionaries that agree on a field agree on its result.
\<close>

lemma str_validator_not_empty: "str_validator v \<noteq> Inl []"
  by (cases v) (simp_all add: str_validator_def)
lemma decimal_validator_not_empty: "decimal_validator v \<noteq> Inl []"
  by (cases v) (simp_all add: decimal_validator_def split: dec_parse.splits)
lemma int_validator_not_empty: "int_validator v \<noteq> Inl []"
  by (cases v) (simp_all add: int_validator_def split: sum.splits)
lemma literal_validator_not_empty: "literal_validator ex v \<noteq> Inl []"
  by (cases v) (simp_all add: literal_validator_def)

lemma field_ok_iff:
  assumes "\<And>v. val v \<noteq> Inl []"
  shows "(errors_of (field d n val) = []) = (\<exists>v x. map_of d n = Some v \<and> val v = Inr x)"
    and "errors_of (field d n val) = [] \<Longrightarrow> val (the (map_of d n)) = Inr (projr (field d n val))"
  using assms
  by (auto simp: field_def split: option.splits sum.splits)

lemma field_agree:
  assumes "\<And>v. val v \<noteq> Inl []" and "map_of d n = map_of d' n"
  shows "(errors_of (field d n val) = []) = (errors_of (field d' n val) = [])"
    and "errors_of (field d n val) = [] \<Longrightarrow> projr (field d n val) = projr (field d' n val)"
  using assms
  by (auto simp: field_def split: option.splits sum.splits)

text \<open>
  Two keyed records that agree on the six fields of a trade validate to the same
  entry: the unknown keys of either are not looked at and not stored.
\<close>

lemma TradeEntry_unknown_keys_ignored:
  assumes "\<forall>k \<in> set [''market'', ''price'', ''amount'', ''total'', ''type'', ''timestamp''].
             map_of d k = map_of d' k"
  shows "(TradeEntry_validate (VDict d) = Inr t) = (TradeEntry_validate (VDict d') = Inr t)"
proof -
  note a = field_agree [OF str_validator_not_empty, of d "''market''" d']
    field_agree [OF decimal_validator_not_empty, of d "''price''" d']
    field_agree [OF decimal_validator_not_empty, of d "''amount''" d']
    field_agree [OF decimal_validator_not_empty, of d "''total''" d']
    field_agree [OF literal_validator_not_empty, of d "''type''" d']
    field_agree [OF timestamp_validator_not_empty, of d "''timestamp''" d']
  from assms show ?thesis
    using a by (simp add: TradeEntry_fields_def Let_def)
qed

lemma OHCLEntry_fields_unknown_keys_ignored:
  assumes "\<forall>k \<in> set [''timestamp'', ''open'', ''high'', ''low'', ''close'', ''volume''].
             map_of d k = map_of d' k"
  shows "(OHCLEntry_fields d = Inr e) = (OHCLEntry_fields d' = Inr e)"
proof -
  note a = field_agree [OF int_validator_not_empty, of d "''timestamp''" d']
    field_agree [OF decimal_validator_not_empty, of d "''open''" d']
    field_agree [OF decimal_validator_not_empty, of d "''high''" d']
    field_agree [OF decimal_validator_not_empty, of d "''low''" d']
    field_agree [OF decimal_validator_not_empty, of d "''close''" d']
    field_agree [OF decimal_validator_not_empty, of d "''volume''" d']
  from assms show ?thesis
    using a by (simp add: OHCLEntry_fields_def Let_def)
qed

text \<open>
  C10. The claim: a keyed record with all required fields and further unknown keys
  validates, as a candle and as a trade, to the entry of the record without the
  unknown keys. For trades this holds (\<open>TradeEntry_unknown_keys_ignored\<close>: two records
  that agree on the six fields validate to the same entry), and the field stage of
  the candle model ignores unknown keys as well; but candle validation of the schema
  module ends in \<open>AttributeError\<close> for a keyed record, with or without unknown keys.
\<close>

theorem C10_candle_with_unknown_keys_raises:
  "OHCLEntry_validate
     (VDict [(''timestamp'', VInt 1699000000000), (''open'', VStr ''50000.5''),
             (''high'', VStr ''51000.0''), (''low'', VStr ''49500.0''),
             (''close'', VStr ''50500.0''), (''volume'', VStr ''100.5''),
             (''symbol'', VStr ''BTCUSDT''), (''interval'', VStr ''1h'')])
   = Inl (AttributeError ''dict'' ''high'')"
  by (simp add: OHCLEntry_validate_raises)

subsection \<open>The multi-symbol adapters\<close>

text \<open>
  C7. The claim: validation of a multi-symbol map fails exactly when the collection of
  some symbol fails, and names that symbol. The candle adapter of the schema module is
  \<open>TypeAdapter(Any)\<close> (the test suite declares \<open>TypeAdapter(dict[str, OHLC])\<close>): it
  takes every value, so a map whose \<open>ETHUSDT\<close> entry is no collection at all passes
  unchanged.
\<close>

theorem C7_candle_map_accepts_invalid_collection:
  "all_ohlc_T
     (VDict [(''BTCUSDT'', VDict [(''values'', VList [])]), (''ETHUSDT'', VStr ''no candles'')])
   = Inr (VDict [(''BTCUSDT'', VDict [(''values'', VList [])]), (''ETHUSDT'', VStr ''no candles'')])
   \<and> (\<forall>v. all_ohlc_T v = Inr v)"
  by (simp add: all_ohlc_T_def)

text \<open>
  The trade adapter does what C7 says. A collection that fails has at least one error
  line; the map succeeds exactly when every collection does, keeps every key in its
  place, and on failure its lines are the lines of the failing collections, each with
  the key of its symbol in front: the lines of one symbol do not depend on the others.
\<close>

lemma TradeEntry_validate_not_empty: "TradeEntry_validate v \<noteq> Inl []"
  by (cases v) (auto simp: TradeEntry_validate_def TradeEntry_fields_def Let_def)

lemma NubitexTrades_validate_not_empty: "NubitexTrades_validate v \<noteq> Inl []"
  by (cases v) (auto simp: NubitexTrades_validate_def NubitexTrades_fields_def Let_def)

lemma errors_of_NubitexTrades_nil:
  "(errors_of (NubitexTrades_validate v) = []) = (\<exists>b. NubitexTrades_validate v = Inr b)"
  using NubitexTrades_validate_not_empty [of v]
  by (cases "NubitexTrades_validate v") auto

lemma all_trades_T_dict:
  "all_trades_T (VDict m) =
     (let errs = concat (map (\<lambda>kv. map (at_loc (LStr (fst kv))) (errors_of (NubitexTrades_validate (snd kv)))) m)
      in if errs = [] then Inr (map (\<lambda>kv. (fst kv, projr (NubitexTrades_validate (snd kv)))) m)
         else Inl errs)"
  by (simp add: all_trades_T_def dict_validator_def Let_def case_prod_unfold comp_def)

lemma all_trades_T_succeeds_iff:
  "(\<exists>r. all_trades_T (VDict m) = Inr r) =
   (\<forall>kv \<in> set m. \<exists>b. NubitexTrades_validate (snd kv) = Inr b)"
  by (auto simp: all_trades_T_dict Let_def errors_of_NubitexTrades_nil [symmetric])

lemma all_trades_T_keeps_keys:
  assumes "all_trades_T (VDict m) = Inr r"
  shows "map fst r = map fst m"
    and "list_all2 (\<lambda>kv kb. fst kb = fst kv \<and> NubitexTrades_validate (snd kv) = Inr (snd kb)) m r"
proof -
  from assms have errs: "\<forall>kv \<in> set m. errors_of (NubitexTrades_validate (snd kv)) = []"
    and r: "r = map (\<lambda>kv. (fst kv, projr (NubitexTrades_validate (snd kv)))) m"
    by (auto simp: all_trades_T_dict Let_def split: if_splits)
  show "map fst r = map fst m"
    by (simp add: r comp_def)
  show "list_all2 (\<lambda>kv kb. fst kb = fst kv \<and> NubitexTrades_validate (snd kv) = Inr (snd kb)) m r"
    using errs unfolding r
    by (auto simp: list_all2_map2 errors_of_NubitexTrades_nil intro!: list.rel_refl_strong)
qed

lemma all_trades_T_names_symbol:
  assumes "all_trades_T (VDict m) = Inl es"
  shows "set es = {at_loc (LStr k) e | k v e. (k, v) \<in> set m \<and> e \<in> set (errors_of (NubitexTrades_validate v))}"
  using assms by (force simp: all_trades_T_dict Let_def split: if_splits)

lemma all_trades_T_example:
  "all_trades_T (VDict [(''BTCUSDT'', VDict [(''trades'', VList []), (''status'', VStr ''ok'')]),
                        (''ETHUSDT'', VDict [(''trades'', VList [])])])
     = Inl [LineError [LStr ''ETHUSDT'', LStr ''status''] Missing (VDict [(''trades'', VList [])])]"
  "all_trades_T (VDict [(''BTCUSDT'', VDict [(''trades'', VList []), (''status'', VStr ''ok'')])])
     = Inr [(''BTCUSDT'', \<lparr>nt_trades = [], nt_status = ''ok''\<rparr>)]"
  by code_simp+

end
